theory Spec2Isabelle
  imports Complex_Main "HOL-Library.Sublist" "HOL-Library.Multiset"
begin

section \<open>JavaScript values\<close>

text \<open>
  The payload of a reading is a \<^verbatim>\<open>Record<string, any>\<close> that arrives as JSON. A value of a
  payload is therefore one of the JSON shapes, or \<^verbatim>\<open>undefined\<close>. An object is the list of its own
  keys with their values; none of these values is a function.

  A JavaScript number is \<^verbatim>\<open>NaN\<close>, an infinity, or a finite value. Comparison of two numbers is
  exact, so the finite values are embedded in the reals. The conversions between strings and
  numbers and the printing of a built-in function belong to the language runtime: they are
  the fields of \<open>js_runtime\<close>, and every statement below holds for any choice of them.
\<close>

datatype error = TypeError string | AwsError string

datatype jsnum = NaN | NegInf | Fin real | PosInf

datatype jsval =
    JUndefined
  | JNull
  | JBool bool
  | JNum jsnum
  | JStr string
  | JArr "jsval list"
  | JObj "(string \<times> jsval) list"

record js_runtime =
  str2num :: "string \<Rightarrow> jsnum"
  num2str :: "jsnum \<Rightarrow> string"
  fun2str :: "string \<Rightarrow> string"

text \<open>
  What a property read \<^verbatim>\<open>obj[key]\<close> gives on an object parsed from JSON: the value of an own
  key, or else what the object inherits from \<^verbatim>\<open>Object.prototype\<close> under that name (one of its
  built-in functions, or the prototype itself for \<^verbatim>\<open>__proto__\<close>), or else \<^verbatim>\<open>undefined\<close>.
\<close>

datatype jsref = Value jsval | NativeFunction string | ObjectPrototype

text \<open>The names under which \<^verbatim>\<open>Object.prototype\<close> holds a function, and the name of each.\<close>

definition prototype_functions :: "(string \<times> string) list" where
  "prototype_functions =
     [(''constructor'', ''Object''),
      (''__defineGetter__'', ''__defineGetter__''),
      (''__defineSetter__'', ''__defineSetter__''),
      (''hasOwnProperty'', ''hasOwnProperty''),
      (''__lookupGetter__'', ''__lookupGetter__''),
      (''__lookupSetter__'', ''__lookupSetter__''),
      (''isPrototypeOf'', ''isPrototypeOf''),
      (''propertyIsEnumerable'', ''propertyIsEnumerable''),
      (''toString'', ''toString''),
      (''valueOf'', ''valueOf''),
      (''toLocaleString'', ''toLocaleString'')]"

definition inherited :: "string \<Rightarrow> jsref" where
  "inherited k =
     (if k = ''__proto__'' then ObjectPrototype
      else case map_of prototype_functions k of
             Some name \<Rightarrow> NativeFunction name
           | None \<Rightarrow> Value JUndefined)"

definition get_prop :: "(string \<times> jsval) list \<Rightarrow> string \<Rightarrow> jsref" where
  "get_prop obj k = (case map_of obj k of Some v \<Rightarrow> Value v | None \<Rightarrow> inherited k)"

text \<open>\<^verbatim>\<open>a < b\<close> on numbers: false as soon as one side is \<^verbatim>\<open>NaN\<close>.\<close>

fun num_lt :: "jsnum \<Rightarrow> jsnum \<Rightarrow> bool" where
  "num_lt NaN b = False"
| "num_lt a NaN = False"
| "num_lt NegInf NegInf = False"
| "num_lt NegInf b = True"
| "num_lt a NegInf = False"
| "num_lt PosInf b = False"
| "num_lt a PosInf = True"
| "num_lt (Fin x) (Fin y) = (x < y)"

text \<open>\<^verbatim>\<open>a === b\<close> on numbers: \<^verbatim>\<open>NaN\<close> equals nothing, itself included.\<close>

fun num_eq :: "jsnum \<Rightarrow> jsnum \<Rightarrow> bool" where
  "num_eq NaN b = False"
| "num_eq a NaN = False"
| "num_eq a b = (a = b)"

definition num_gt :: "jsnum \<Rightarrow> jsnum \<Rightarrow> bool" where
  "num_gt a b = num_lt b a"

definition num_lte :: "jsnum \<Rightarrow> jsnum \<Rightarrow> bool" where
  "num_lte a b = (num_lt a b \<or> num_eq a b)"

definition num_gte :: "jsnum \<Rightarrow> jsnum \<Rightarrow> bool" where
  "num_gte a b = (num_lt b a \<or> num_eq a b)"

text \<open>\<^verbatim>\<open>Array.prototype.join(',')\<close> on strings already converted.\<close>

fun join_comma :: "string list \<Rightarrow> string" where
  "join_comma [] = []"
| "join_comma [s] = s"
| "join_comma (s # t # ts) = s @ '','' @ join_comma (t # ts)"

text \<open>Conversions done one after the other: the first that throws ends them.\<close>

fun in_turn :: "(error + 'a) list \<Rightarrow> error + 'a list" where
  "in_turn [] = Inr []"
| "in_turn (Inl e # rs) = Inl e"
| "in_turn (Inr x # rs) = (case in_turn rs of Inl e \<Rightarrow> Inl e | Inr xs \<Rightarrow> Inr (x # xs))"

definition cannot_convert :: error where
  "cannot_convert = TypeError ''Cannot convert object to primitive value''"

text \<open>
  \<^verbatim>\<open>String(v)\<close> on a value of a payload. An array prints its elements joined by commas, with
  \<^verbatim>\<open>null\<close> and \<^verbatim>\<open>undefined\<close> elements printed as the empty string. An object is converted by its
  \<^verbatim>\<open>toString\<close>, then by its \<^verbatim>\<open>valueOf\<close>: an own key \<^verbatim>\<open>toString\<close> holds no function and is passed
  over, and \<^verbatim>\<open>valueOf\<close>, own or inherited, gives no primitive, so the conversion throws a
  \<^verbatim>\<open>TypeError\<close>; without that own key the inherited \<^verbatim>\<open>toString\<close> prints \<^verbatim>\<open>[object Object]\<close>.
\<close>

fun js_String :: "js_runtime \<Rightarrow> jsval \<Rightarrow> error + string" where
  "js_String rt JUndefined = Inr ''undefined''"
| "js_String rt JNull = Inr ''null''"
| "js_String rt (JBool b) = Inr (if b then ''true'' else ''false'')"
| "js_String rt (JNum n) = Inr (num2str rt n)"
| "js_String rt (JStr s) = Inr s"
| "js_String rt (JArr xs) =
     (case in_turn (map (\<lambda>x. if x = JUndefined \<or> x = JNull then Inr [] else js_String rt x) xs) of
        Inl e \<Rightarrow> Inl e
      | Inr strs \<Rightarrow> Inr (join_comma strs))"
| "js_String rt (JObj kvs) =
     (if map_of kvs ''toString'' \<noteq> None then Inl cannot_convert
      else Inr ''[object Object]'')"

text \<open>
  \<^verbatim>\<open>Number(v)\<close> on a value of a payload. An array or an object is converted by its \<^verbatim>\<open>valueOf\<close>
  (which gives no primitive), then by its \<^verbatim>\<open>toString\<close>, and the string is parsed; it throws
  where the conversion to a string does.
\<close>

fun js_Number :: "js_runtime \<Rightarrow> jsval \<Rightarrow> error + jsnum" where
  "js_Number rt JUndefined = Inr NaN"
| "js_Number rt JNull = Inr (Fin 0)"
| "js_Number rt (JBool b) = Inr (if b then Fin 1 else Fin 0)"
| "js_Number rt (JNum n) = Inr n"
| "js_Number rt (JStr s) = Inr (str2num rt s)"
| "js_Number rt (JArr xs) =
     (case js_String rt (JArr xs) of Inl e \<Rightarrow> Inl e | Inr s \<Rightarrow> Inr (str2num rt s))"
| "js_Number rt (JObj kvs) =
     (case js_String rt (JObj kvs) of Inl e \<Rightarrow> Inl e | Inr s \<Rightarrow> Inr (str2num rt s))"

text \<open>The two conversions on what a property read gives.\<close>

fun ref_String :: "js_runtime \<Rightarrow> jsref \<Rightarrow> error + string" where
  "ref_String rt (Value v) = js_String rt v"
| "ref_String rt (NativeFunction name) = Inr (fun2str rt name)"
| "ref_String rt ObjectPrototype = Inr ''[object Object]''"

fun ref_Number :: "js_runtime \<Rightarrow> jsref \<Rightarrow> error + jsnum" where
  "ref_Number rt (Value v) = js_Number rt v"
| "ref_Number rt (NativeFunction name) = Inr (str2num rt (fun2str rt name))"
| "ref_Number rt ObjectPrototype = Inr (str2num rt ''[object Object]'')"

text \<open>\<^verbatim>\<open>s.includes(t)\<close>: \<open>t\<close> occurs in \<open>s\<close> as a contiguous piece.\<close>

fun str_includes :: "string \<Rightarrow> string \<Rightarrow> bool" where
  "str_includes [] t = (t = [])"
| "str_includes (c # cs) t = (prefix t (c # cs) \<or> str_includes cs t)"

text \<open>Truthiness, as \<^verbatim>\<open>if (v)\<close> and \<^verbatim>\<open>!v\<close> read it.\<close>

fun truthy :: "jsval \<Rightarrow> bool" where
  "truthy JUndefined = False"
| "truthy JNull = False"
| "truthy (JBool b) = b"
| "truthy (JNum n) = (n \<noteq> NaN \<and> n \<noteq> Fin 0)"
| "truthy (JStr s) = (s \<noteq> [])"
| "truthy (JArr xs) = True"
| "truthy (JObj kvs) = True"

fun ref_truthy :: "jsref \<Rightarrow> bool" where
  "ref_truthy (Value v) = truthy v"
| "ref_truthy (NativeFunction name) = True"
| "ref_truthy ObjectPrototype = True"


section \<open>Alert rules and the condition evaluator (schemas/alert.ts)\<close>

text \<open>
  The value of a condition is a string, a number or a boolean; its conversions never throw.
\<close>

datatype cond_value = CStr string | CNum jsnum | CBool bool

fun cv_Number :: "js_runtime \<Rightarrow> cond_value \<Rightarrow> jsnum" where
  "cv_Number rt (CStr s) = str2num rt s"
| "cv_Number rt (CNum n) = n"
| "cv_Number rt (CBool b) = (if b then Fin 1 else Fin 0)"

fun cv_String :: "js_runtime \<Rightarrow> cond_value \<Rightarrow> string" where
  "cv_String rt (CStr s) = s"
| "cv_String rt (CNum n) = num2str rt n"
| "cv_String rt (CBool b) = (if b then ''true'' else ''false'')"

text \<open>
  \<^verbatim>\<open>fieldValue === condition.value\<close>: same type and same value. An array, an object or a
  function is never strictly equal to a primitive.
\<close>

fun strict_eq :: "jsref \<Rightarrow> cond_value \<Rightarrow> bool" where
  "strict_eq (Value (JStr s)) (CStr t) = (s = t)"
| "strict_eq (Value (JNum a)) (CNum b) = num_eq a b"
| "strict_eq (Value (JBool a)) (CBool b) = (a = b)"
| "strict_eq v c = False"

record alert_condition =
  c_field :: string
  c_operator :: string
  c_value :: cond_value

text \<open>
  The callback that \<^verbatim>\<open>evaluateAlertConditions\<close> passes to \<^verbatim>\<open>every\<close>. In a comparison the field
  value is converted first; when its conversion throws, the callback throws.
\<close>

definition evalCondition ::
  "js_runtime \<Rightarrow> (string \<times> jsval) list \<Rightarrow> alert_condition \<Rightarrow> error + bool" where
  "evalCondition rt data condition =
     (let fieldValue = get_prop data (c_field condition) in
      if fieldValue = Value JUndefined \<or> fieldValue = Value JNull then Inr False
      else if c_operator condition = ''gt'' then
        (case ref_Number rt fieldValue of Inl e \<Rightarrow> Inl e
         | Inr n \<Rightarrow> Inr (num_gt n (cv_Number rt (c_value condition))))
      else if c_operator condition = ''gte'' then
        (case ref_Number rt fieldValue of Inl e \<Rightarrow> Inl e
         | Inr n \<Rightarrow> Inr (num_gte n (cv_Number rt (c_value condition))))
      else if c_operator condition = ''lt'' then
        (case ref_Number rt fieldValue of Inl e \<Rightarrow> Inl e
         | Inr n \<Rightarrow> Inr (num_lt n (cv_Number rt (c_value condition))))
      else if c_operator condition = ''lte'' then
        (case ref_Number rt fieldValue of Inl e \<Rightarrow> Inl e
         | Inr n \<Rightarrow> Inr (num_lte n (cv_Number rt (c_value condition))))
      else if c_operator condition = ''eq'' then
        Inr (strict_eq fieldValue (c_value condition))
      else if c_operator condition = ''neq'' then
        Inr (\<not> strict_eq fieldValue (c_value condition))
      else if c_operator condition = ''contains'' then
        (case ref_String rt fieldValue of Inl e \<Rightarrow> Inl e
         | Inr s \<Rightarrow> Inr (str_includes s (cv_String rt (c_value condition))))
      else if c_operator condition = ''not_contains'' then
        (case ref_String rt fieldValue of Inl e \<Rightarrow> Inl e
         | Inr s \<Rightarrow> Inr (\<not> str_includes s (cv_String rt (c_value condition))))
      else Inr False)"

text \<open>
  \<^verbatim>\<open>Array.prototype.every\<close>: calls the callback on the elements in order, stops with \<^verbatim>\<open>false\<close> at
  the first element on which it is false, and throws what the callback throws.
\<close>

fun every :: "('a \<Rightarrow> error + bool) \<Rightarrow> 'a list \<Rightarrow> error + bool" where
  "every p [] = Inr True"
| "every p (x # xs) =
     (case p x of Inl e \<Rightarrow> Inl e | Inr b \<Rightarrow> if b then every p xs else Inr False)"

definition evaluateAlertConditions ::
  "js_runtime \<Rightarrow> alert_condition list \<Rightarrow> (string \<times> jsval) list \<Rightarrow> error + bool" where
  "evaluateAlertConditions rt conditions data = every (evalCondition rt data) conditions"

text \<open>
  A runtime for the closed examples. It parses the strings of decimal digits, and the empty
  string as 0; every other string is taken as \<^verbatim>\<open>NaN\<close>. It prints every number as the empty
  string and a built-in function as Node does. The examples parse no other numeric string and
  print no number.
\<close>

definition digit_value :: "char \<Rightarrow> nat option" where
  "digit_value c =
     (let code = (of_char c :: nat)
      in if 48 \<le> code \<and> code \<le> 57 then Some (code - 48) else None)"

fun digits_value :: "nat \<Rightarrow> string \<Rightarrow> jsnum" where
  "digits_value acc [] = Fin (real acc)"
| "digits_value acc (c # cs) =
     (case digit_value c of None \<Rightarrow> NaN | Some d \<Rightarrow> digits_value (10 * acc + d) cs)"

definition rt0 :: js_runtime where
  "rt0 = \<lparr>str2num = digits_value 0, num2str = (\<lambda>n. []),
          fun2str = (\<lambda>name. ''function '' @ name @ ''() { [native code] }'')\<rparr>"


section \<open>The alert processor (functions/alert-processor.ts)\<close>

text \<open>
  Timestamps are milliseconds since the epoch and the cooldown is a number of seconds; both
  are integers here, on which the arithmetic of the handler is exact.
\<close>

datatype severity = Info | Warning | Critical

datatype alert_status = Active | Acknowledged | Resolved

record alert_rule =
  r_alertId :: string
  r_name :: string
  r_deviceId :: "string option"
  r_conditions :: "alert_condition list"
  r_severity :: severity
  r_enabled :: bool
  r_notificationChannels :: "string list"
  r_emailRecipients :: "string list option"
  r_webhookUrl :: "string option"
  r_cooldownPeriod :: "int option"

record alert_instance =
  ai_alertInstanceId :: string
  ai_alertId :: string
  ai_alertName :: string
  ai_deviceId :: jsref
  ai_severity :: severity
  ai_message :: string
  ai_triggeredAt :: int
  ai_status :: alert_status
  ai_eventId :: string
  ai_metadata_conditions :: "alert_condition list"
  ai_metadata_eventData :: "(string \<times> jsval) list"

record event_metadata =
  md_version :: string
  md_tags :: "string list option"

record event =
  e_id :: string
  e_timestamp :: int
  e_source :: string
  e_type :: string
  e_data :: "(string \<times> jsval) list"
  e_metadata :: "event_metadata option"

text \<open>The item that \<^verbatim>\<open>storeAlertInstance\<close> puts, and the entry that \<^verbatim>\<open>triggerNotification\<close> publishes.\<close>

record alert_item =
  it_instance :: alert_instance
  it_pk :: string
  it_sk :: string

record notification =
  n_Source :: string
  n_DetailType :: string
  n_alertInstance :: alert_instance
  n_rule :: alert_rule
  n_notificationChannels :: "string list"
  n_emailRecipients :: "string list option"
  n_webhookUrl :: "string option"

text \<open>
  What the handler awaits is outside the program: the table, the event bus, the clock and the
  generator of identifiers. They are the fields of \<open>services\<close>, over a state \<open>'w\<close> of the outside
  world that each call may change; a call to the table or to the bus either answers or is
  rejected with an error. \<open>scanRules\<close> is the scan of the rules table with its filter
  \<^verbatim>\<open>begins_with(alertId, 'rule_')\<close>, answering \<^verbatim>\<open>result.Items || []\<close>. \<open>queryDeviceIndex\<close> is the
  query of \<^verbatim>\<open>DeviceIndex\<close> for a device id, filtered by a rule id, newest first, with limit 1,
  answering \<^verbatim>\<open>result.Items\<close>. Every statement below holds for any choice of the services.
\<close>

record 'w services =
  scanRules :: "'w \<Rightarrow> error + alert_rule list"
  queryDeviceIndex :: "'w \<Rightarrow> jsref \<Rightarrow> string \<Rightarrow> error + alert_instance list"
  putItem :: "'w \<Rightarrow> alert_item \<Rightarrow> error + 'w"
  putEvents :: "'w \<Rightarrow> notification \<Rightarrow> error + 'w"
  dateNow :: "'w \<Rightarrow> int \<times> 'w"
  uuidv4 :: "'w \<Rightarrow> string \<times> 'w"

text \<open>An optional string as a value, and its truthiness (\<^verbatim>\<open>undefined\<close> and \<^verbatim>\<open>''\<close> are falsy).\<close>

fun opt_js :: "string option \<Rightarrow> jsval" where
  "opt_js None = JUndefined"
| "opt_js (Some s) = JStr s"

text \<open>\<^verbatim>\<open>createAlertInstance\<close> of schemas/alert.ts: the identifier is drawn first, then the clock is read.\<close>

definition createAlertInstance ::
  "'w services \<Rightarrow> string \<Rightarrow> string \<Rightarrow> string \<Rightarrow> severity \<Rightarrow> jsref \<Rightarrow> string \<Rightarrow>
   alert_condition list \<Rightarrow> (string \<times> jsval) list \<Rightarrow> 'w \<Rightarrow> alert_instance \<times> 'w" where
  "createAlertInstance sv alertId alertName message sev deviceId eventId conds eventData w =
     (case uuidv4 sv w of (uid, w1) \<Rightarrow>
      case dateNow sv w1 of (t, w2) \<Rightarrow>
        (\<lparr>ai_alertInstanceId = uid, ai_alertId = alertId, ai_alertName = alertName,
          ai_deviceId = deviceId, ai_severity = sev, ai_message = message,
          ai_triggeredAt = t, ai_status = Active, ai_eventId = eventId,
          ai_metadata_conditions = conds, ai_metadata_eventData = eventData\<rparr>, w2))"

definition getAlertRules :: "'w services \<Rightarrow> jsref \<Rightarrow> 'w \<Rightarrow> error + alert_rule list" where
  "getAlertRules sv deviceId w =
     (case scanRules sv w of
        Inl e \<Rightarrow> Inl e
      | Inr rules \<Rightarrow>
          if ref_truthy deviceId
          then Inr (filter (\<lambda>rule. \<not> truthy (opt_js (r_deviceId rule))
                                   \<or> Value (opt_js (r_deviceId rule)) = deviceId) rules)
          else Inr rules)"

definition getLastAlertForRule ::
  "'w services \<Rightarrow> string \<Rightarrow> jsref \<Rightarrow> 'w \<Rightarrow> error + alert_instance option" where
  "getLastAlertForRule sv alertId deviceId w =
     (if \<not> ref_truthy deviceId then Inr None
      else case queryDeviceIndex sv w deviceId alertId of
             Inl e \<Rightarrow> Inl e
           | Inr items \<Rightarrow> Inr (case items of [] \<Rightarrow> None | a # rest \<Rightarrow> Some a))"

definition storeAlertInstance :: "'w services \<Rightarrow> alert_instance \<Rightarrow> 'w \<Rightarrow> error + 'w" where
  "storeAlertInstance sv alertInstance w =
     putItem sv w \<lparr>it_instance = alertInstance,
                   it_pk = ai_alertInstanceId alertInstance,
                   it_sk = ''ALERT#'' @ ai_alertId alertInstance\<rparr>"

definition triggerNotification ::
  "'w services \<Rightarrow> alert_instance \<Rightarrow> alert_rule \<Rightarrow> 'w \<Rightarrow> error + 'w" where
  "triggerNotification sv alertInstance rule w =
     putEvents sv w \<lparr>n_Source = ''iot_sensors'', n_DetailType = ''alert.notification'',
                     n_alertInstance = alertInstance, n_rule = rule,
                     n_notificationChannels = r_notificationChannels rule,
                     n_emailRecipients = r_emailRecipients rule,
                     n_webhookUrl = r_webhookUrl rule\<rparr>"

text \<open>
  What one pass of the loop body did with a rule: left it by one of the three \<^verbatim>\<open>continue\<close>
  statements or because the conditions did not match, or created an instance, stored it and
  published its notification.
\<close>

datatype outcome = Disabled | OtherDevice | NoMatch | InCooldown | Fired alert_instance

text \<open>
  The part of the loop body after the cooldown check (lines 64 to 84). The message is built
  first; the device id is converted to a string in it, which may throw.
\<close>

definition fireAlert ::
  "js_runtime \<Rightarrow> 'w services \<Rightarrow> event \<Rightarrow> jsref \<Rightarrow> alert_rule \<Rightarrow> 'w \<Rightarrow> (error + outcome) \<times> 'w" where
  "fireAlert rt sv sensorEvent deviceId rule w =
     (case ref_String rt deviceId of
        Inl e \<Rightarrow> (Inl e, w)
      | Inr device \<Rightarrow>
          (case createAlertInstance sv (r_alertId rule) (r_name rule)
                  (''Alert triggered: '' @ r_name rule @ '' - Device: '' @ device)
                  (r_severity rule) deviceId (e_id sensorEvent)
                  (r_conditions rule) (e_data sensorEvent) w of
             (alertInstance, w1) \<Rightarrow>
               (case storeAlertInstance sv alertInstance w1 of
                  Inl e \<Rightarrow> (Inl e, w1)
                | Inr w2 \<Rightarrow>
                    (case triggerNotification sv alertInstance rule w2 of
                       Inl e \<Rightarrow> (Inl e, w2)
                     | Inr w3 \<Rightarrow> (Inr (Fired alertInstance), w3)))))"

text \<open>
  The body of the loop over the rules (lines 43 to 85). An error is an exception thrown by the
  evaluation of the conditions or a rejected await.
\<close>

definition processRule ::
  "js_runtime \<Rightarrow> 'w services \<Rightarrow> event \<Rightarrow> jsref \<Rightarrow> alert_rule \<Rightarrow> 'w \<Rightarrow> (error + outcome) \<times> 'w" where
  "processRule rt sv sensorEvent deviceId rule w =
     (if \<not> r_enabled rule then (Inr Disabled, w)
      else if truthy (opt_js (r_deviceId rule)) \<and> Value (opt_js (r_deviceId rule)) \<noteq> deviceId
      then (Inr OtherDevice, w)
      else
        (case evaluateAlertConditions rt (r_conditions rule) (e_data sensorEvent) of
           Inl e \<Rightarrow> (Inl e, w)
         | Inr shouldTrigger \<Rightarrow>
             if \<not> shouldTrigger then (Inr NoMatch, w)
             else
               (case getLastAlertForRule sv (r_alertId rule) deviceId w of
                  Inl e \<Rightarrow> (Inl e, w)
                | Inr lastAlert \<Rightarrow>
                    (case (lastAlert, r_cooldownPeriod rule) of
                       (Some la, Some cooldown) \<Rightarrow>
                         if cooldown \<noteq> 0 then
                           (case dateNow sv w of (now, w1) \<Rightarrow>
                              if now - ai_triggeredAt la < cooldown * 1000
                              then (Inr InCooldown, w1)
                              else fireAlert rt sv sensorEvent deviceId rule w1)
                         else fireAlert rt sv sensorEvent deviceId rule w
                     | _ \<Rightarrow> fireAlert rt sv sensorEvent deviceId rule w))))"

text \<open>
  The loop \<^verbatim>\<open>for (const rule of alertRules)\<close>. An exception or a rejected await leaves the
  loop at once: the rules after it are not visited. The list of outcomes records what the loop
  did.
\<close>

fun rulesLoop ::
  "js_runtime \<Rightarrow> 'w services \<Rightarrow> event \<Rightarrow> jsref \<Rightarrow> alert_rule list \<Rightarrow> 'w \<Rightarrow>
   (error + outcome list) \<times> 'w" where
  "rulesLoop rt sv sensorEvent deviceId [] w = (Inr [], w)"
| "rulesLoop rt sv sensorEvent deviceId (rule # rules) w =
     (case processRule rt sv sensorEvent deviceId rule w of
        (Inl e, w1) \<Rightarrow> (Inl e, w1)
      | (Inr out, w1) \<Rightarrow>
          (case rulesLoop rt sv sensorEvent deviceId rules w1 of
             (Inl e, w2) \<Rightarrow> (Inl e, w2)
           | (Inr outs, w2) \<Rightarrow> (Inr (out # outs), w2)))"

text \<open>
  The handler. The \<^verbatim>\<open>catch\<close> block logs the error and throws it again, so an exception or a
  rejected await anywhere in the \<^verbatim>\<open>try\<close> block is the result of the handler.
\<close>

definition handler ::
  "js_runtime \<Rightarrow> 'w services \<Rightarrow> event \<Rightarrow> 'w \<Rightarrow> (error + outcome list) \<times> 'w" where
  "handler rt sv telemetryEvent w =
     (if e_type telemetryEvent \<noteq> ''sensor_reading'' \<or> e_source telemetryEvent \<noteq> ''iot_sensors''
      then (Inr [], w)
      else
        (let deviceId = get_prop (e_data telemetryEvent) ''deviceId'' in
         case getAlertRules sv deviceId w of
           Inl e \<Rightarrow> (Inl e, w)
         | Inr alertRules \<Rightarrow> rulesLoop rt sv telemetryEvent deviceId alertRules w))"

subsection \<open>An in-memory table, bus, clock and identifier source for the closed examples\<close>

record mem_world =
  m_rules :: "alert_rule list"
  m_alerts :: "alert_item list"
  m_events :: "notification list"
  m_clock :: int
  m_ids :: nat

text \<open>
  The query reads the newest item of the device (the limit bounds the items read) and keeps it
  if it belongs to the rule. Items are kept newest first. A put is rejected for the instances
  of the rules named in \<open>bad\<close>.
\<close>

definition mem_query :: "mem_world \<Rightarrow> jsref \<Rightarrow> string \<Rightarrow> alert_instance list" where
  "mem_query w deviceId alertId =
     filter (\<lambda>a. ai_alertId a = alertId)
       (take 1 (filter (\<lambda>a. ai_deviceId a = deviceId) (map it_instance (m_alerts w))))"

definition mem_services :: "string list \<Rightarrow> mem_world services" where
  "mem_services bad =
     \<lparr>scanRules = (\<lambda>w. Inr (filter (\<lambda>r. prefix ''rule_'' (r_alertId r)) (m_rules w))),
      queryDeviceIndex = (\<lambda>w deviceId alertId. Inr (mem_query w deviceId alertId)),
      putItem = (\<lambda>w item.
         if ai_alertId (it_instance item) \<in> set bad then Inl (AwsError ''put rejected'')
         else Inr (w\<lparr>m_alerts := item # m_alerts w\<rparr>)),
      putEvents = (\<lambda>w n. Inr (w\<lparr>m_events := n # m_events w\<rparr>)),
      dateNow = (\<lambda>w. (m_clock w, w)),
      uuidv4 = (\<lambda>w. (''id-'' @ replicate (m_ids w) (CHR ''i''), w\<lparr>m_ids := Suc (m_ids w)\<rparr>))\<rparr>"

text \<open>
  The rule of the end-to-end scenarios, \<^verbatim>\<open>{field: "value", operator: "gt", value: 40}\<close>, with a
  name, a device scope and a cooldown as parameters, and a reading of device \<^verbatim>\<open>d1\<close>.
\<close>

definition demo_rule :: "string \<Rightarrow> string option \<Rightarrow> int option \<Rightarrow> alert_rule" where
  "demo_rule rid dev cd =
     \<lparr>r_alertId = rid, r_name = ''hot'', r_deviceId = dev,
      r_conditions = [\<lparr>c_field = ''value'', c_operator = ''gt'', c_value = CNum (Fin 40)\<rparr>],
      r_severity = Critical, r_enabled = True, r_notificationChannels = [''ui''],
      r_emailRecipients = None, r_webhookUrl = None, r_cooldownPeriod = cd\<rparr>"

definition demo_reading :: event where
  "demo_reading =
     \<lparr>e_id = ''ev-1'', e_timestamp = 30000, e_source = ''iot_sensors'', e_type = ''sensor_reading'',
      e_data = [(''deviceId'', JStr ''d1''), (''value'', JNum (Fin 45))],
      e_metadata = None\<rparr>"

text \<open>An instance of rule \<open>rid\<close> fired for device \<^verbatim>\<open>d1\<close> at time \<open>t\<close>, as stored.\<close>

definition demo_item :: "string \<Rightarrow> int \<Rightarrow> alert_item" where
  "demo_item rid t =
     \<lparr>it_instance =
        \<lparr>ai_alertInstanceId = ''prior-'' @ rid, ai_alertId = rid, ai_alertName = ''hot'',
         ai_deviceId = Value (JStr ''d1''), ai_severity = Critical,
         ai_message = ''Alert triggered: hot - Device: d1'',
         ai_triggeredAt = t, ai_status = Active, ai_eventId = ''ev-0'',
         ai_metadata_conditions = [], ai_metadata_eventData = []\<rparr>,
      it_pk = ''prior-'' @ rid, it_sk = ''ALERT#'' @ rid\<rparr>"

definition demo_world :: "alert_rule list \<Rightarrow> alert_item list \<Rightarrow> int \<Rightarrow> mem_world" where
  "demo_world rules items now =
     \<lparr>m_rules = rules, m_alerts = items, m_events = [], m_clock = now, m_ids = 0\<rparr>"

text \<open>
  The instance that the handler creates from \<open>demo_reading\<close> for the rule \<open>rid\<close> at time \<open>t\<close>,
  with the first identifier of the source of identifiers.
\<close>

definition demo_fired :: "string \<Rightarrow> int \<Rightarrow> alert_instance" where
  "demo_fired rid t =
     \<lparr>ai_alertInstanceId = ''id-'', ai_alertId = rid, ai_alertName = ''hot'',
      ai_deviceId = Value (JStr ''d1''), ai_severity = Critical,
      ai_message = ''Alert triggered: hot - Device: d1'',
      ai_triggeredAt = t, ai_status = Active, ai_eventId = ''ev-1'',
      ai_metadata_conditions =
        [\<lparr>c_field = ''value'', c_operator = ''gt'', c_value = CNum (Fin 40)\<rparr>],
      ai_metadata_eventData = [(''deviceId'', JStr ''d1''), (''value'', JNum (Fin 45))]\<rparr>"


section \<open>The WebSocket handler (functions/websocket-handler.ts)\<close>

record replay_filters =
  rf_sources :: "string list option"
  rf_types :: "string list option"
  rf_tags :: "string list option"

record replay_config =
  rc_startTime :: int
  rc_endTime :: int
  rc_speed :: real
  rc_filters :: "replay_filters option"

record event_filters =
  ef_sources :: "string list option"
  ef_types :: "string list option"
  ef_startTime :: "int option"
  ef_endTime :: "int option"
  ef_tags :: "string list option"
  ef_limit :: "int option"
  ef_offset :: "int option"

record connection_info =
  ci_connectionId :: string
  ci_userId :: "string option"
  ci_subscriptions :: "string list"
  ci_deviceSubscriptions :: "string list"
  ci_alertSubscriptions :: bool
  ci_replayConfig :: "replay_config option"
  ci_lastActivity :: int

text \<open>
  The messages of a client, after \<^verbatim>\<open>JSON.parse\<close>, with the data each action reads: lists of
  strings where the handler expects arrays, each of them optional, and the data itself
  optional.
\<close>

record topic_data =
  td_sources :: "string list option"
  td_types :: "string list option"

record device_data =
  dd_deviceIds :: "string list option"

datatype ws_request =
    Subscribe "topic_data option"
  | Unsubscribe "topic_data option"
  | SubscribeDevices "device_data option"
  | UnsubscribeDevices "device_data option"
  | SubscribeAlerts
  | UnsubscribeAlerts
  | QueryEvents event_filters
  | StartReplay "replay_config option"
  | StopReplay
  | Ping
  | OtherAction string

fun action_of :: "ws_request \<Rightarrow> string" where
  "action_of (Subscribe d) = ''subscribe''"
| "action_of (Unsubscribe d) = ''unsubscribe''"
| "action_of (SubscribeDevices d) = ''subscribe_devices''"
| "action_of (UnsubscribeDevices d) = ''unsubscribe_devices''"
| "action_of SubscribeAlerts = ''subscribe_alerts''"
| "action_of UnsubscribeAlerts = ''unsubscribe_alerts''"
| "action_of (QueryEvents f) = ''query_events''"
| "action_of (StartReplay c) = ''start_replay''"
| "action_of StopReplay = ''stop_replay''"
| "action_of Ping = ''ping''"
| "action_of (OtherAction a) = a"

datatype response_data =
    RSubscribed "string list" string
  | RSubscribedDevices "string list" string
  | RAlerts bool string
  | REvents "event list" nat event_filters
  | RReplayStarted string "replay_config option"
  | RMessage string
  | RPong
  | REvent event

record ws_response =
  rs_action :: string
  rs_data :: "response_data option"
  rs_error :: "string option"
  rs_requestId :: "string option"
  rs_timestamp :: int

text \<open>
  The state of the module is the map \<^verbatim>\<open>connections\<close>; \<open>ws_clock\<close> is what \<^verbatim>\<open>Date.now()\<close> reads.
\<close>

record ws_state =
  connections :: "string \<rightharpoonup> connection_info"
  ws_clock :: int

text \<open>
  The requests to the events table, as \<^verbatim>\<open>queryEventsFromDynamoDB\<close> builds them: a query of
  an index for one key value, with the time range when there is one, or a scan with the bounds
  that are given. Both carry the filter on the user and the limit.
\<close>

record query_params =
  q_IndexName :: string
  q_key :: string
  q_between :: "(int \<times> int) option"
  q_userId :: string
  q_Limit :: int

record scan_params =
  s_userId :: string
  s_startTime :: "int option"
  s_endTime :: "int option"
  s_Limit :: int

text \<open>
  Outside the program: the events table, which answers a request with items or rejects it,
  and the gateway, which accepts or refuses a message for a connection. Every statement below
  holds for any choice of them.
\<close>

record ws_env =
  sendQuery :: "query_params \<Rightarrow> error + event list"
  sendScan :: "scan_params \<Rightarrow> error + event list"
  postToConnection :: "string \<Rightarrow> ws_response \<Rightarrow> bool"

definition TEST_USER_ID :: string where
  "TEST_USER_ID = ''soumithmadadi''"

text \<open>A number read as a condition: \<^verbatim>\<open>undefined\<close> and 0 are falsy.\<close>

fun num_truthy :: "int option \<Rightarrow> bool" where
  "num_truthy None = False"
| "num_truthy (Some n) = (n \<noteq> 0)"

text \<open>\<^verbatim>\<open>xs && xs.length > 0\<close>.\<close>

fun nonempty :: "string list option \<Rightarrow> bool" where
  "nonempty None = False"
| "nonempty (Some xs) = (xs \<noteq> [])"

text \<open>\<^verbatim>\<open>xs || []\<close>.\<close>

fun or_empty :: "'a list option \<Rightarrow> 'a list" where
  "or_empty None = []"
| "or_empty (Some xs) = xs"

text \<open>\<^verbatim>\<open>Promise.all\<close> followed by \<^verbatim>\<open>flatMap\<close>: one rejection rejects the whole.\<close>

fun collect :: "(error + 'a list) list \<Rightarrow> error + 'a list" where
  "collect [] = Inr []"
| "collect (Inl e # rs) = Inl e"
| "collect (Inr xs # rs) = (case collect rs of Inl e \<Rightarrow> Inl e | Inr ys \<Rightarrow> Inr (xs @ ys))"

definition queryEventsFromDynamoDB :: "ws_env \<Rightarrow> event_filters \<Rightarrow> error + event list" where
  "queryEventsFromDynamoDB env filters =
     (let limit = (case ef_limit filters of None \<Rightarrow> 100 | Some l \<Rightarrow> l);
          userId = TEST_USER_ID;
          between = (case (ef_startTime filters, ef_endTime filters) of
                       (Some startTime, Some endTime) \<Rightarrow>
                         if startTime \<noteq> 0 \<and> endTime \<noteq> 0 then Some (startTime, endTime) else None
                     | _ \<Rightarrow> None)
      in if nonempty (ef_sources filters) then
           collect (map (\<lambda>source. sendQuery env
                      \<lparr>q_IndexName = ''SourceTimestampIndex'', q_key = source,
                       q_between = between, q_userId = userId, q_Limit = limit\<rparr>)
                    (or_empty (ef_sources filters)))
         else if nonempty (ef_types filters) then
           collect (map (\<lambda>type. sendQuery env
                      \<lparr>q_IndexName = ''TypeTimestampIndex'', q_key = type,
                       q_between = between, q_userId = userId, q_Limit = limit\<rparr>)
                    (or_empty (ef_types filters)))
         else
           sendScan env
             \<lparr>s_userId = userId,
              s_startTime = (if num_truthy (ef_startTime filters) then ef_startTime filters else None),
              s_endTime = (if num_truthy (ef_endTime filters) then ef_endTime filters else None),
              s_Limit = limit\<rparr>)"

text \<open>
  \<^verbatim>\<open>sendToConnection\<close>: a message the gateway refuses removes the connection from the map; the
  result tells whether the message was accepted.
\<close>

definition sendToConnection :: "ws_env \<Rightarrow> string \<Rightarrow> ws_response \<Rightarrow> ws_state \<Rightarrow> bool \<times> ws_state" where
  "sendToConnection env connectionId message st =
     (if postToConnection env connectionId message then (True, st)
      else (False, st\<lparr>connections := (connections st)(connectionId := None)\<rparr>))"

text \<open>
  \<^verbatim>\<open>handleConnect\<close> and \<^verbatim>\<open>handleDisconnect\<close>, as they act on the map; the connection event they
  emit afterwards does not touch it.
\<close>

definition handleConnect :: "string \<Rightarrow> ws_state \<Rightarrow> ws_state" where
  "handleConnect connectionId st =
     st\<lparr>connections := (connections st)(connectionId \<mapsto>
          \<lparr>ci_connectionId = connectionId, ci_userId = None, ci_subscriptions = [],
           ci_deviceSubscriptions = [], ci_alertSubscriptions = False,
           ci_replayConfig = None, ci_lastActivity = ws_clock st\<rparr>)\<rparr>"

definition handleDisconnect :: "string \<Rightarrow> ws_state \<Rightarrow> ws_state" where
  "handleDisconnect connectionId st =
     st\<lparr>connections := (connections st)(connectionId := None)\<rparr>"

text \<open>
  The handlers of the actions. Each takes the response under construction and gives it back
  with its data or its error set.
\<close>

definition not_found :: "ws_response \<Rightarrow> ws_response" where
  "not_found response = response\<lparr>rs_error := Some ''Connection not found''\<rparr>"

text \<open>\<^verbatim>\<open>[...new Set(xs)]\<close>: the first occurrence of each element, in order.\<close>

definition uniq :: "'a list \<Rightarrow> 'a list" where
  "uniq xs = rev (remdups (rev xs))"

text \<open>The fields of \<^verbatim>\<open>data || {}\<close>.\<close>

fun data_sources :: "topic_data option \<Rightarrow> string list option" where
  "data_sources None = None"
| "data_sources (Some d) = td_sources d"

fun data_types :: "topic_data option \<Rightarrow> string list option" where
  "data_types None = None"
| "data_types (Some d) = td_types d"

fun data_deviceIds :: "device_data option \<Rightarrow> string list option" where
  "data_deviceIds None = None"
| "data_deviceIds (Some d) = dd_deviceIds d"

definition handleSubscribe ::
  "string \<Rightarrow> topic_data option \<Rightarrow> ws_response \<Rightarrow> ws_state \<Rightarrow> ws_response \<times> ws_state" where
  "handleSubscribe connectionId data response st =
     (case connections st connectionId of
        None \<Rightarrow> (not_found response, st)
      | Some connection \<Rightarrow>
          (let subs = uniq (ci_subscriptions connection @ or_empty (data_sources data)
                              @ or_empty (data_types data))
           in (response\<lparr>rs_data := Some (RSubscribed subs ''Successfully subscribed to events'')\<rparr>,
               st\<lparr>connections := (connections st)(connectionId \<mapsto>
                    connection\<lparr>ci_subscriptions := subs, ci_lastActivity := ws_clock st\<rparr>)\<rparr>)))"

definition handleUnsubscribe ::
  "string \<Rightarrow> topic_data option \<Rightarrow> ws_response \<Rightarrow> ws_state \<Rightarrow> ws_response \<times> ws_state" where
  "handleUnsubscribe connectionId data response st =
     (case connections st connectionId of
        None \<Rightarrow> (not_found response, st)
      | Some connection \<Rightarrow>
          (let toUnsubscribe = or_empty (data_sources data) @ or_empty (data_types data);
               subs = filter (\<lambda>sub. sub \<notin> set toUnsubscribe) (ci_subscriptions connection)
           in (response\<lparr>rs_data := Some (RSubscribed subs ''Successfully unsubscribed from events'')\<rparr>,
               st\<lparr>connections := (connections st)(connectionId \<mapsto>
                    connection\<lparr>ci_subscriptions := subs, ci_lastActivity := ws_clock st\<rparr>)\<rparr>)))"

definition handleSubscribeDevices ::
  "string \<Rightarrow> device_data option \<Rightarrow> ws_response \<Rightarrow> ws_state \<Rightarrow> ws_response \<times> ws_state" where
  "handleSubscribeDevices connectionId data response st =
     (case connections st connectionId of
        None \<Rightarrow> (not_found response, st)
      | Some connection \<Rightarrow>
          (let devs = (case data_deviceIds data of
                         Some deviceIds \<Rightarrow> uniq (ci_deviceSubscriptions connection @ deviceIds)
                       | None \<Rightarrow> ci_deviceSubscriptions connection)
           in (response\<lparr>rs_data := Some (RSubscribedDevices devs ''Successfully subscribed to devices'')\<rparr>,
               st\<lparr>connections := (connections st)(connectionId \<mapsto>
                    connection\<lparr>ci_deviceSubscriptions := devs, ci_lastActivity := ws_clock st\<rparr>)\<rparr>)))"

definition handleUnsubscribeDevices ::
  "string \<Rightarrow> device_data option \<Rightarrow> ws_response \<Rightarrow> ws_state \<Rightarrow> ws_response \<times> ws_state" where
  "handleUnsubscribeDevices connectionId data response st =
     (case connections st connectionId of
        None \<Rightarrow> (not_found response, st)
      | Some connection \<Rightarrow>
          (let devs = (case data_deviceIds data of
                         Some deviceIds \<Rightarrow>
                           filter (\<lambda>id. id \<notin> set deviceIds) (ci_deviceSubscriptions connection)
                       | None \<Rightarrow> [])
           in (response\<lparr>rs_data := Some (RSubscribedDevices devs ''Successfully unsubscribed from devices'')\<rparr>,
               st\<lparr>connections := (connections st)(connectionId \<mapsto>
                    connection\<lparr>ci_deviceSubscriptions := devs, ci_lastActivity := ws_clock st\<rparr>)\<rparr>)))"

definition handleSubscribeAlerts ::
  "string \<Rightarrow> ws_response \<Rightarrow> ws_state \<Rightarrow> ws_response \<times> ws_state" where
  "handleSubscribeAlerts connectionId response st =
     (case connections st connectionId of
        None \<Rightarrow> (not_found response, st)
      | Some connection \<Rightarrow>
          (response\<lparr>rs_data := Some (RAlerts True ''Successfully subscribed to alerts'')\<rparr>,
           st\<lparr>connections := (connections st)(connectionId \<mapsto>
                connection\<lparr>ci_alertSubscriptions := True, ci_lastActivity := ws_clock st\<rparr>)\<rparr>))"

definition handleUnsubscribeAlerts ::
  "string \<Rightarrow> ws_response \<Rightarrow> ws_state \<Rightarrow> ws_response \<times> ws_state" where
  "handleUnsubscribeAlerts connectionId response st =
     (case connections st connectionId of
        None \<Rightarrow> (not_found response, st)
      | Some connection \<Rightarrow>
          (response\<lparr>rs_data := Some (RAlerts False ''Successfully unsubscribed from alerts'')\<rparr>,
           st\<lparr>connections := (connections st)(connectionId \<mapsto>
                connection\<lparr>ci_alertSubscriptions := False, ci_lastActivity := ws_clock st\<rparr>)\<rparr>))"

fun error_message :: "error \<Rightarrow> string" where
  "error_message (TypeError m) = m"
| "error_message (AwsError m) = m"

definition handleQueryEvents ::
  "ws_env \<Rightarrow> string \<Rightarrow> event_filters \<Rightarrow> ws_response \<Rightarrow> ws_state \<Rightarrow> ws_response \<times> ws_state" where
  "handleQueryEvents env connectionId filters response st =
     (case queryEventsFromDynamoDB env filters of
        Inl e \<Rightarrow>
          (response\<lparr>rs_error := Some (''Failed to query events: '' @ error_message e)\<rparr>, st)
      | Inr events \<Rightarrow>
          (response\<lparr>rs_data := Some (REvents events (length events) filters)\<rparr>, st))"

text \<open>
  \<^verbatim>\<open>handleStartReplay\<close> stores the data of the message as the replay configuration, also when
  the message has no data, and starts \<^verbatim>\<open>startReplay\<close> without awaiting it; the replay it starts
  is a run of \<open>startReplay\<close> below, on its own.
\<close>

definition handleStartReplay ::
  "string \<Rightarrow> replay_config option \<Rightarrow> ws_response \<Rightarrow> ws_state \<Rightarrow> ws_response \<times> ws_state" where
  "handleStartReplay connectionId config response st =
     (case connections st connectionId of
        None \<Rightarrow> (not_found response, st)
      | Some connection \<Rightarrow>
          (response\<lparr>rs_data := Some (RReplayStarted ''Replay started'' config)\<rparr>,
           st\<lparr>connections := (connections st)(connectionId \<mapsto>
                connection\<lparr>ci_replayConfig := config, ci_lastActivity := ws_clock st\<rparr>)\<rparr>))"

definition handleStopReplay ::
  "string \<Rightarrow> ws_response \<Rightarrow> ws_state \<Rightarrow> ws_response \<times> ws_state" where
  "handleStopReplay connectionId response st =
     (case connections st connectionId of
        None \<Rightarrow> (not_found response, st)
      | Some connection \<Rightarrow>
          (response\<lparr>rs_data := Some (RMessage ''Replay stopped'')\<rparr>,
           st\<lparr>connections := (connections st)(connectionId \<mapsto>
                connection\<lparr>ci_replayConfig := None, ci_lastActivity := ws_clock st\<rparr>)\<rparr>))"

text \<open>
  \<^verbatim>\<open>handleMessage\<close> on a parsed message: the response is built, the handler of the action fills
  it, and it is sent to the connection.
\<close>

definition handleMessage ::
  "ws_env \<Rightarrow> string \<Rightarrow> ws_request \<Rightarrow> string option \<Rightarrow> ws_state \<Rightarrow> ws_response \<times> ws_state" where
  "handleMessage env connectionId request requestId st =
     (let response = \<lparr>rs_action = action_of request, rs_data = None, rs_error = None,
                      rs_requestId = requestId, rs_timestamp = ws_clock st\<rparr>;
          handled =
            (case request of
               Subscribe d \<Rightarrow> handleSubscribe connectionId d response st
             | Unsubscribe d \<Rightarrow> handleUnsubscribe connectionId d response st
             | SubscribeDevices d \<Rightarrow> handleSubscribeDevices connectionId d response st
             | UnsubscribeDevices d \<Rightarrow> handleUnsubscribeDevices connectionId d response st
             | SubscribeAlerts \<Rightarrow> handleSubscribeAlerts connectionId response st
             | UnsubscribeAlerts \<Rightarrow> handleUnsubscribeAlerts connectionId response st
             | QueryEvents f \<Rightarrow> handleQueryEvents env connectionId f response st
             | StartReplay c \<Rightarrow> handleStartReplay connectionId c response st
             | StopReplay \<Rightarrow> handleStopReplay connectionId response st
             | Ping \<Rightarrow> (response\<lparr>rs_data := Some RPong\<rparr>, st)
             | OtherAction a \<Rightarrow> (response\<lparr>rs_error := Some (''Unknown action: '' @ a)\<rparr>, st))
      in (fst handled, snd (sendToConnection env connectionId (fst handled) (snd handled))))"

text \<open>
  What the process handles while a running replay is suspended in an \<^verbatim>\<open>await\<close>: connections,
  disconnections and messages of clients, and the passing of time. Each is handled to its end
  before the next.
\<close>

datatype ws_input =
    Connect string
  | Disconnect string
  | Message string ws_request "string option"
  | Tick nat

fun apply_input :: "ws_env \<Rightarrow> ws_state \<Rightarrow> ws_input \<Rightarrow> ws_state" where
  "apply_input env st (Connect c) = handleConnect c st"
| "apply_input env st (Disconnect c) = handleDisconnect c st"
| "apply_input env st (Message c request requestId) = snd (handleMessage env c request requestId st)"
| "apply_input env st (Tick n) = st\<lparr>ws_clock := ws_clock st + int n\<rparr>"

definition run_inputs :: "ws_env \<Rightarrow> ws_input list \<Rightarrow> ws_state \<Rightarrow> ws_state" where
  "run_inputs env inputs st = foldl (apply_input env) st inputs"

text \<open>
  The loop of \<^verbatim>\<open>startReplay\<close> over the sorted events. Each pass checks that the connection is in
  the map and has a replay configuration, and leaves the loop otherwise; then it sends the
  event and pauses. \<open>sched\<close> gives, pass by pass, what the process handles while the send is
  awaited and what it handles during the pause; a schedule that has run out means that
  nothing more is handled. The inputs handled while the send is awaited come before the
  removal of the connection that a refused message causes. The result is the list of the
  events the gateway accepted, in the order of their sending, and the state at the end.
\<close>

fun replayLoop ::
  "ws_env \<Rightarrow> string \<Rightarrow> event list \<Rightarrow> (ws_input list \<times> ws_input list) list \<Rightarrow> ws_state \<Rightarrow>
   event list \<times> ws_state" where
  "replayLoop env connectionId [] sched st = ([], st)"
| "replayLoop env connectionId (event # events) sched st =
     (case connections st connectionId of
        None \<Rightarrow> ([], st)
      | Some connection \<Rightarrow>
          (case ci_replayConfig connection of
             None \<Rightarrow> ([], st)
           | Some cfg \<Rightarrow>
               (let replayMessage = \<lparr>rs_action = ''replay_event'', rs_data = Some (REvent event),
                                     rs_error = None, rs_requestId = None,
                                     rs_timestamp = ws_clock st\<rparr>;
                    during = (case sched of [] \<Rightarrow> ([], []) | s # rest \<Rightarrow> s);
                    sent = sendToConnection env connectionId replayMessage
                             (run_inputs env (fst during) st);
                    st1 = run_inputs env (snd during) (snd sent);
                    more = replayLoop env connectionId events (tl sched) st1
                in ((if fst sent then event # fst more else fst more), snd more))))"

text \<open>
  \<^verbatim>\<open>startReplay\<close>: the events are fetched with the filters of the configuration, its time range
  and the limit 1000, sorted by timestamp (the sort of an array is stable), and replayed.
  \<open>fetching\<close> is what the process handles while the fetch is awaited. Without a configuration
  the destructuring at the start throws. An exception or a rejected fetch is the result of
  the run; the caller logs it.
\<close>

definition replay_filters_of :: "replay_config \<Rightarrow> event_filters" where
  "replay_filters_of config =
     \<lparr>ef_sources = (case rc_filters config of None \<Rightarrow> None | Some f \<Rightarrow> rf_sources f),
      ef_types = (case rc_filters config of None \<Rightarrow> None | Some f \<Rightarrow> rf_types f),
      ef_startTime = Some (rc_startTime config),
      ef_endTime = Some (rc_endTime config),
      ef_tags = (case rc_filters config of None \<Rightarrow> None | Some f \<Rightarrow> rf_tags f),
      ef_limit = Some 1000,
      ef_offset = None\<rparr>"

definition startReplay ::
  "ws_env \<Rightarrow> string \<Rightarrow> replay_config option \<Rightarrow> ws_input list \<Rightarrow>
   (ws_input list \<times> ws_input list) list \<Rightarrow> ws_state \<Rightarrow> (error + event list) \<times> ws_state" where
  "startReplay env connectionId config fetching sched st =
     (case config of
        None \<Rightarrow>
          (Inl (TypeError ''Cannot destructure property 'startTime' of 'config' as it is undefined.''),
           st)
      | Some cfg \<Rightarrow>
          (case queryEventsFromDynamoDB env (replay_filters_of cfg) of
             Inl e \<Rightarrow> (Inl e, run_inputs env fetching st)
           | Inr events \<Rightarrow>
               (let sorted_events = sort_key e_timestamp events;
                    looped = replayLoop env connectionId sorted_events sched
                               (run_inputs env fetching st)
                in (Inr (fst looped), snd looped))))"

text \<open>The inputs handled during pass \<open>k\<close> of the loop, counted from 0, under a schedule.\<close>

definition pass_inputs ::
  "(ws_input list \<times> ws_input list) list \<Rightarrow> nat \<Rightarrow> ws_input list \<times> ws_input list" where
  "pass_inputs sched k = (if k < length sched then sched ! k else ([], []))"

text \<open>
  What a request asks of the events it selects: the key of the index has the value of the
  request and the timestamp lies between its bounds, for a query; the timestamp respects the
  bounds that are given, for a scan.
\<close>

definition query_selects :: "query_params \<Rightarrow> event \<Rightarrow> bool" where
  "query_selects p ev =
     ((if q_IndexName p = ''SourceTimestampIndex'' then e_source ev = q_key p
       else e_type ev = q_key p)
      \<and> (case q_between p of
            None \<Rightarrow> True
          | Some (lo, hi) \<Rightarrow> lo \<le> e_timestamp ev \<and> e_timestamp ev \<le> hi))"

definition scan_selects :: "scan_params \<Rightarrow> event \<Rightarrow> bool" where
  "scan_selects p ev =
     ((case s_startTime p of None \<Rightarrow> True | Some lo \<Rightarrow> lo \<le> e_timestamp ev)
      \<and> (case s_endTime p of None \<Rightarrow> True | Some hi \<Rightarrow> e_timestamp ev \<le> hi))"



subsection \<open>An events table and a gateway for the closed examples\<close>

text \<open>
  A stored item is an event with the user it belongs to. A query reads the items of the key in
  the time range, newest first, up to the limit, and keeps those of the user; a scan reads the
  items up to the limit and keeps those of the user within the bounds. The gateway accepts
  every message.
\<close>

definition mem_sendQuery :: "(event \<times> string) list \<Rightarrow> query_params \<Rightarrow> event list" where
  "mem_sendQuery table p =
     map fst (filter (\<lambda>it. snd it = q_userId p)
       (take (nat (q_Limit p))
         (rev (sort_key (\<lambda>it. e_timestamp (fst it))
           (filter (\<lambda>it. query_selects p (fst it)) table)))))"

definition mem_sendScan :: "(event \<times> string) list \<Rightarrow> scan_params \<Rightarrow> event list" where
  "mem_sendScan table p =
     map fst (filter (\<lambda>it. snd it = s_userId p \<and> scan_selects p (fst it))
       (take (nat (s_Limit p)) table))"

definition mem_env :: "(event \<times> string) list \<Rightarrow> ws_env" where
  "mem_env table =
     \<lparr>sendQuery = (\<lambda>p. Inr (mem_sendQuery table p)),
      sendScan = (\<lambda>p. Inr (mem_sendScan table p)),
      postToConnection = (\<lambda>c m. True)\<rparr>"

definition demo_event :: "string \<Rightarrow> int \<Rightarrow> string list option \<Rightarrow> event" where
  "demo_event eid t tags =
     \<lparr>e_id = eid, e_timestamp = t, e_source = ''iot_sensors'', e_type = ''sensor_reading'',
      e_data = [(''deviceId'', JStr ''d1''), (''value'', JNum (Fin 45))],
      e_metadata = Some \<lparr>md_version = ''1.0.0'', md_tags = tags\<rparr>\<rparr>"

definition demo_config :: "replay_filters option \<Rightarrow> replay_config" where
  "demo_config filters =
     \<lparr>rc_startTime = 1000, rc_endTime = 5000, rc_speed = 5, rc_filters = filters\<rparr>"



text \<open>A session \<^verbatim>\<open>c1\<close> with the given subscriptions and replay configuration, at time 0.\<close>

definition demo_session ::
  "string list \<Rightarrow> string list \<Rightarrow> replay_config option \<Rightarrow> connection_info" where
  "demo_session subs devs cfg =
     \<lparr>ci_connectionId = ''c1'', ci_userId = None, ci_subscriptions = subs,
      ci_deviceSubscriptions = devs, ci_alertSubscriptions = False,
      ci_replayConfig = cfg, ci_lastActivity = 0\<rparr>"

definition demo_state :: "connection_info \<Rightarrow> ws_state" where
  "demo_state c = \<lparr>connections = [''c1'' \<mapsto> c], ws_clock = 0\<rparr>"

text \<open>The response that \<^verbatim>\<open>handleMessage\<close> hands to the handler of an action, at time 0.\<close>

definition demo_response :: "string \<Rightarrow> ws_response" where
  "demo_response action =
     \<lparr>rs_action = action, rs_data = None, rs_error = None, rs_requestId = None,
      rs_timestamp = 0\<rparr>"

subsection \<open>The selection of events in the words of the specification\<close>



section \<open>Properties of the condition evaluator\<close>

lemma every_true_iff: "(every p xs = Inr True) = (\<forall>x\<in>set xs. p x = Inr True)"
proof (induction xs)
  case Nil
  show ?case by simp
next
  case (Cons x xs)
  then show ?case by (cases "p x") auto
qed




lemma evalCondition_missing:
  assumes "map_of data (c_field c) = None \<or> map_of data (c_field c) = Some JNull"
    and "inherited (c_field c) = Value JUndefined"
  shows "evalCondition rt data c = Inr False"
  using assms by (auto simp add: evalCondition_def get_prop_def Let_def)

text \<open>
  C2. A condition whose field is absent from the payload must evaluate false whatever its
  operator. The callback tests what the property read gives against \<^verbatim>\<open>undefined\<close> and \<^verbatim>\<open>null\<close>,
  and the read of a field that the payload does not have gives what the object inherits under
  that name. For a payload without the keys \<^verbatim>\<open>constructor\<close> and \<^verbatim>\<open>toString\<close>, the condition
  \<^verbatim>\<open>constructor neq "x"\<close> and the condition \<^verbatim>\<open>toString contains "native"\<close> evaluate true, and a
  rule made of the first matches.
\<close>

theorem C2_inherited_field_matches:
  "map_of [(''deviceId'', JStr ''d1''), (''value'', JNum (Fin 45))] ''constructor'' = None
   \<and> map_of [(''deviceId'', JStr ''d1''), (''value'', JNum (Fin 45))] ''toString'' = None
   \<and> evalCondition rt0 [(''deviceId'', JStr ''d1''), (''value'', JNum (Fin 45))]
        \<lparr>c_field = ''constructor'', c_operator = ''neq'', c_value = CStr ''x''\<rparr> = Inr True
   \<and> evalCondition rt0 [(''deviceId'', JStr ''d1''), (''value'', JNum (Fin 45))]
        \<lparr>c_field = ''toString'', c_operator = ''contains'', c_value = CStr ''native''\<rparr> = Inr True
   \<and> evaluateAlertConditions rt0
        [\<lparr>c_field = ''constructor'', c_operator = ''neq'', c_value = CStr ''x''\<rparr>]
        [(''deviceId'', JStr ''d1''), (''value'', JNum (Fin 45))] = Inr True"
  by (simp add: evaluateAlertConditions_def evalCondition_def get_prop_def inherited_def
      prototype_functions_def rt0_def)

lemma num_lt_NaN [simp]: "num_lt a NaN = False"
  by (cases a) auto

lemma num_eq_NaN [simp]: "num_eq a NaN = False"
  by (cases a) auto









section \<open>Properties of the alert processor\<close>

lemma getLast_query:
  "ref_truthy deviceId \<Longrightarrow> queryDeviceIndex sv w deviceId rid = Inr items \<Longrightarrow>
   getLastAlertForRule sv rid deviceId w = Inr (case items of [] \<Rightarrow> None | a # rest \<Rightarrow> Some a)"
  by (simp add: getLastAlertForRule_def)

lemma getLast_no_device:
  "\<not> ref_truthy deviceId \<Longrightarrow> getLastAlertForRule sv rid deviceId w = Inr None"
  by (simp add: getLastAlertForRule_def)

lemma processRule_step:
  assumes "r_enabled r"
    and "\<not> (truthy (opt_js (r_deviceId r)) \<and> Value (opt_js (r_deviceId r)) \<noteq> deviceId)"
    and "evaluateAlertConditions rt (r_conditions r) (e_data ev) = Inr True"
    and "getLastAlertForRule sv (r_alertId r) deviceId w = Inr la"
  shows "processRule rt sv ev deviceId r w =
         (case (la, r_cooldownPeriod r) of
            (Some a, Some T) \<Rightarrow>
              if T \<noteq> 0 then
                (if fst (dateNow sv w) - ai_triggeredAt a < T * 1000
                 then (Inr InCooldown, snd (dateNow sv w))
                 else fireAlert rt sv ev deviceId r (snd (dateNow sv w)))
              else fireAlert rt sv ev deviceId r w
          | _ \<Rightarrow> fireAlert rt sv ev deviceId r w)"
  using assms
  by (auto simp add: processRule_def split: option.splits prod.splits)

lemma fireAlert_not_cooldown: "fst (fireAlert rt sv ev deviceId r w) \<noteq> Inr InCooldown"
  by (auto simp add: fireAlert_def split: prod.splits sum.splits)

lemma processRule_cooldown_iff:
  assumes "r_enabled r"
    and "\<not> (truthy (opt_js (r_deviceId r)) \<and> Value (opt_js (r_deviceId r)) \<noteq> deviceId)"
    and "evaluateAlertConditions rt (r_conditions r) (e_data ev) = Inr True"
    and "getLastAlertForRule sv (r_alertId r) deviceId w = Inr la"
  shows "(fst (processRule rt sv ev deviceId r w) = Inr InCooldown) =
           (\<exists>T a. r_cooldownPeriod r = Some T \<and> T \<noteq> 0 \<and> la = Some a
                  \<and> fst (dateNow sv w) - ai_triggeredAt a < T * 1000)"
proof -
  note step = processRule_step [OF assms]
  show ?thesis
  proof (cases "\<exists>T a. r_cooldownPeriod r = Some T \<and> T \<noteq> 0 \<and> la = Some a
                  \<and> fst (dateNow sv w) - ai_triggeredAt a < T * 1000")
    case True
    then show ?thesis using step by auto
  next
    case False
    then have "processRule rt sv ev deviceId r w = fireAlert rt sv ev deviceId r w
             \<or> processRule rt sv ev deviceId r w = fireAlert rt sv ev deviceId r (snd (dateNow sv w))"
      using step by (auto split: option.splits)
    then show ?thesis
      using False fireAlert_not_cooldown [of rt sv ev deviceId r w]
        fireAlert_not_cooldown [of rt sv ev deviceId r "snd (dateNow sv w)"]
      by auto
  qed
qed

text \<open>
  C4. For a rule scoped to a device, a matching reading of that device must be suppressed when
  a prior instance of the rule exists for the device and was fired less than the cooldown
  ago. The lookup of the last alert asks the table for the newest item of the device, with
  limit 1, and filters it by the rule afterwards. Here the table holds an instance of
  \<^verbatim>\<open>rule_1\<close> for \<^verbatim>\<open>d1\<close> fired at time 0 and a newer instance of \<^verbatim>\<open>rule_2\<close> for \<^verbatim>\<open>d1\<close> fired at
  10000; \<^verbatim>\<open>rule_1\<close> has a cooldown of 60 seconds and the reading comes at 30000. The lookup
  finds nothing, and the handler creates, stores and publishes a second instance of \<^verbatim>\<open>rule_1\<close>
  inside its cooldown.
\<close>

theorem C4_cooldown_hidden_by_newer_alert:
  "r_deviceId (demo_rule ''rule_1'' (Some ''d1'') (Some 60)) = Some ''d1''
   \<and> r_cooldownPeriod (demo_rule ''rule_1'' (Some ''d1'') (Some 60)) = Some 60
   \<and> evaluateAlertConditions rt0 (r_conditions (demo_rule ''rule_1'' (Some ''d1'') (Some 60)))
        (e_data demo_reading) = Inr True
   \<and> ai_alertId (it_instance (demo_item ''rule_1'' 0)) = ''rule_1''
   \<and> ai_deviceId (it_instance (demo_item ''rule_1'' 0)) = get_prop (e_data demo_reading) ''deviceId''
   \<and> 30000 - ai_triggeredAt (it_instance (demo_item ''rule_1'' 0)) < (60::int) * 1000
   \<and> getLastAlertForRule (mem_services []) ''rule_1'' (Value (JStr ''d1''))
        (demo_world [demo_rule ''rule_1'' (Some ''d1'') (Some 60)]
           [demo_item ''rule_2'' 10000, demo_item ''rule_1'' 0] 30000)
       = Inr None
   \<and> fst (handler rt0 (mem_services []) demo_reading
        (demo_world [demo_rule ''rule_1'' (Some ''d1'') (Some 60)]
           [demo_item ''rule_2'' 10000, demo_item ''rule_1'' 0] 30000))
       = Inr [Fired (demo_fired ''rule_1'' 30000)]
   \<and> m_alerts (snd (handler rt0 (mem_services []) demo_reading
        (demo_world [demo_rule ''rule_1'' (Some ''d1'') (Some 60)]
           [demo_item ''rule_2'' 10000, demo_item ''rule_1'' 0] 30000)))
       = [\<lparr>it_instance = demo_fired ''rule_1'' 30000, it_pk = ''id-'', it_sk = ''ALERT#rule_1''\<rparr>,
          demo_item ''rule_2'' 10000, demo_item ''rule_1'' 0]
   \<and> map n_alertInstance (m_events (snd (handler rt0 (mem_services []) demo_reading
        (demo_world [demo_rule ''rule_1'' (Some ''d1'') (Some 60)]
           [demo_item ''rule_2'' 10000, demo_item ''rule_1'' 0] 30000))))
       = [demo_fired ''rule_1'' 30000]"
  by (simp add: Let_def handler_def getAlertRules_def processRule_def getLastAlertForRule_def
      fireAlert_def createAlertInstance_def storeAlertInstance_def triggerNotification_def
      evaluateAlertConditions_def evalCondition_def get_prop_def num_gt_def
      mem_services_def mem_query_def demo_world_def demo_item_def demo_rule_def
      demo_reading_def demo_fired_def)

theorem C4_cooldown_hidden_by_newer_alert_witness:
  "(\<exists>inst. fst (handler rt0 (mem_services []) demo_reading
        (demo_world [demo_rule ''rule_1'' (Some ''d1'') (Some 60)]
           [demo_item ''rule_2'' 10000, demo_item ''rule_1'' 0] 30000))
       = Inr [Fired inst]
      \<and> ai_alertId inst = ai_alertId (it_instance (demo_item ''rule_1'' 0))
      \<and> ai_deviceId inst = ai_deviceId (it_instance (demo_item ''rule_1'' 0))
      \<and> ai_triggeredAt inst - ai_triggeredAt (it_instance (demo_item ''rule_1'' 0)) < 60 * 1000)"
proof -
  have fired: "fst (handler rt0 (mem_services []) demo_reading
        (demo_world [demo_rule ''rule_1'' (Some ''d1'') (Some 60)]
           [demo_item ''rule_2'' 10000, demo_item ''rule_1'' 0] 30000))
       = Inr [Fired (demo_fired ''rule_1'' 30000)]"
    using C4_cooldown_hidden_by_newer_alert by blast
  have "ai_alertId (demo_fired ''rule_1'' 30000) = ai_alertId (it_instance (demo_item ''rule_1'' 0))"
    and "ai_deviceId (demo_fired ''rule_1'' 30000) = ai_deviceId (it_instance (demo_item ''rule_1'' 0))"
    and "ai_triggeredAt (demo_fired ''rule_1'' 30000)
           - ai_triggeredAt (it_instance (demo_item ''rule_1'' 0)) < 60 * 1000"
    by (simp_all add: demo_fired_def demo_item_def)
  with fired show ?thesis by blast
qed

text \<open>
  C5, as the claim states it, fails: a rule without device scope and with a cooldown of 60
  seconds, a stored instance of it for device \<^verbatim>\<open>d1\<close> fired at time 0, and a matching reading of
  \<^verbatim>\<open>d1\<close> at time 30000. The lookup is made with the device id of the reading and finds the
  instance; the rule is in cooldown and nothing is stored or published.
\<close>

theorem C5_global_rule_counterexample:
  "r_deviceId (demo_rule ''rule_1'' None (Some 60)) = None
   \<and> evaluateAlertConditions rt0 (r_conditions (demo_rule ''rule_1'' None (Some 60)))
        (e_data demo_reading) = Inr True
   \<and> getLastAlertForRule (mem_services []) ''rule_1'' (Value (JStr ''d1''))
        (demo_world [demo_rule ''rule_1'' None (Some 60)] [demo_item ''rule_1'' 0] 30000)
       = Inr (Some (it_instance (demo_item ''rule_1'' 0)))
   \<and> handler rt0 (mem_services []) demo_reading
        (demo_world [demo_rule ''rule_1'' None (Some 60)] [demo_item ''rule_1'' 0] 30000)
       = (Inr [InCooldown],
          demo_world [demo_rule ''rule_1'' None (Some 60)] [demo_item ''rule_1'' 0] 30000)"
  by (simp add: Let_def handler_def getAlertRules_def processRule_def getLastAlertForRule_def
      evaluateAlertConditions_def evalCondition_def get_prop_def num_gt_def
      mem_services_def mem_query_def demo_world_def demo_item_def demo_rule_def
      demo_reading_def)

text \<open>
  C5, amended. For an enabled rule without device scope and a matching reading, the lookup of
  the last alert is keyed by the device id of the reading. When the reading has no device id
  (a falsy one) no lookup is made and the rule is never in cooldown. When it has one, the rule
  is in cooldown exactly when the cooldown is set and non-zero, the lookup for the rule and
  the device of the reading returned a prior instance, and the time read from the clock minus
  its \<open>triggeredAt\<close> is below the cooldown times 1000.
\<close>

theorem C5_global_rule_cooldown:
  assumes "r_enabled r" and "r_deviceId r = None"
    and "evaluateAlertConditions rt (r_conditions r) (e_data ev) = Inr True"
    and "queryDeviceIndex sv w deviceId (r_alertId r) = Inr items"
  shows "(getLastAlertForRule sv (r_alertId r) deviceId w =
            Inr (if ref_truthy deviceId then (case items of [] \<Rightarrow> None | a # rest \<Rightarrow> Some a) else None))
       \<and> ((fst (processRule rt sv ev deviceId r w) = Inr InCooldown) =
           (ref_truthy deviceId \<and>
            (\<exists>T a rest. r_cooldownPeriod r = Some T \<and> T \<noteq> 0 \<and> items = a # rest
                  \<and> fst (dateNow sv w) - ai_triggeredAt a < T * 1000)))"
proof -
  have scope: "\<not> (truthy (opt_js (r_deviceId r)) \<and> Value (opt_js (r_deviceId r)) \<noteq> deviceId)"
    using assms(2) by simp
  show ?thesis
  proof (cases "ref_truthy deviceId")
    case True
    then have la: "getLastAlertForRule sv (r_alertId r) deviceId w =
            Inr (case items of [] \<Rightarrow> None | a # rest \<Rightarrow> Some a)"
      using assms(4) by (simp add: getLast_query)
    note iff = processRule_cooldown_iff [OF assms(1) scope assms(3) la]
    have ex: "(\<exists>T a. r_cooldownPeriod r = Some T \<and> T \<noteq> 0
                \<and> (case items of [] \<Rightarrow> None | a # rest \<Rightarrow> Some a) = Some a
                \<and> fst (dateNow sv w) - ai_triggeredAt a < T * 1000) =
            (\<exists>T a rest. r_cooldownPeriod r = Some T \<and> T \<noteq> 0 \<and> items = a # rest
                  \<and> fst (dateNow sv w) - ai_triggeredAt a < T * 1000)"
      by (cases items) auto
    from iff ex la True show ?thesis by simp
  next
    case False
    then have la: "getLastAlertForRule sv (r_alertId r) deviceId w = Inr None"
      by (simp add: getLast_no_device)
    note iff = processRule_cooldown_iff [OF assms(1) scope assms(3) la]
    from iff la False show ?thesis by simp
  qed
qed

theorem C5_global_rule_cooldown_witness:
  "fst (processRule rt0 (mem_services []) demo_reading (Value (JStr ''d1''))
          (demo_rule ''rule_1'' None (Some 60))
          (demo_world [demo_rule ''rule_1'' None (Some 60)] [demo_item ''rule_1'' 0] 30000))
     = Inr InCooldown"
proof -
  have m: "evaluateAlertConditions rt0 (r_conditions (demo_rule ''rule_1'' None (Some 60)))
             (e_data demo_reading) = Inr True"
    by (simp add: evaluateAlertConditions_def evalCondition_def get_prop_def num_gt_def
        demo_rule_def demo_reading_def)
  have q: "queryDeviceIndex (mem_services [])
             (demo_world [demo_rule ''rule_1'' None (Some 60)] [demo_item ''rule_1'' 0] 30000)
             (Value (JStr ''d1'')) (r_alertId (demo_rule ''rule_1'' None (Some 60)))
           = Inr [it_instance (demo_item ''rule_1'' 0)]"
    by (simp add: mem_services_def mem_query_def demo_world_def demo_item_def demo_rule_def)
  have e: "r_enabled (demo_rule ''rule_1'' None (Some 60))"
    and s: "r_deviceId (demo_rule ''rule_1'' None (Some 60)) = None"
    and c: "r_cooldownPeriod (demo_rule ''rule_1'' None (Some 60)) = Some 60"
    by (simp_all add: demo_rule_def)
  have t1: "fst (dateNow (mem_services [])
              (demo_world [demo_rule ''rule_1'' None (Some 60)] [demo_item ''rule_1'' 0] 30000)) = 30000"
    by (simp add: mem_services_def demo_world_def)
  have a: "ai_triggeredAt (it_instance (demo_item ''rule_1'' 0)) = 0"
    by (simp add: demo_item_def)
  show ?thesis
    using C5_global_rule_cooldown [OF e s m q]
    by (simp add: c t1 a)
qed

text \<open>
  C6, as the claim states it, fails: two enabled rules without device scope, both matching the
  reading, and a table that rejects the put of the instance of the first. The handler ends
  with the error; nothing is stored and nothing is published, although the second rule alone
  fires on the same reading.
\<close>

theorem C6_isolation_counterexample:
  "fst (handler rt0 (mem_services [''rule_1'']) demo_reading
          (demo_world [demo_rule ''rule_1'' None None, demo_rule ''rule_2'' None None] [] 30000))
     = Inl (AwsError ''put rejected'')
   \<and> m_alerts (snd (handler rt0 (mem_services [''rule_1'']) demo_reading
          (demo_world [demo_rule ''rule_1'' None None, demo_rule ''rule_2'' None None] [] 30000)))
     = []
   \<and> m_events (snd (handler rt0 (mem_services [''rule_1'']) demo_reading
          (demo_world [demo_rule ''rule_1'' None None, demo_rule ''rule_2'' None None] [] 30000)))
     = []
   \<and> (\<exists>inst. fst (handler rt0 (mem_services [''rule_1'']) demo_reading
          (demo_world [demo_rule ''rule_2'' None None] [] 30000)) = Inr [Fired inst])"
  by (simp add: Let_def handler_def getAlertRules_def processRule_def getLastAlertForRule_def
      fireAlert_def createAlertInstance_def storeAlertInstance_def triggerNotification_def
      evaluateAlertConditions_def evalCondition_def get_prop_def num_gt_def
      mem_services_def mem_query_def demo_world_def demo_rule_def demo_reading_def)

text \<open>
  C6, amended. A rejected await while one rule is processed (the put of its instance among
  them) ends the loop with that error, in the state of the world reached at the rejection:
  the rules after it are not visited, whatever they are, and the handler ends with the error.
  What the rules before it stored and published stays.
\<close>

theorem C6_failure_ends_loop:
  assumes "rulesLoop rt sv ev dev rs1 w = (Inr outs, w1)"
    and "processRule rt sv ev dev r w1 = (Inl e, w2)"
  shows "rulesLoop rt sv ev dev (rs1 @ r # rs2) w = (Inl e, w2)"
  using assms
proof (induction rs1 arbitrary: w outs)
  case Nil
  then show ?case by simp
next
  case (Cons a rs1)
  from Cons.prems(1) obtain out outs' wa where
    a: "processRule rt sv ev dev a w = (Inr out, wa)"
    and rest: "rulesLoop rt sv ev dev rs1 wa = (Inr outs', w1)"
    by (auto split: prod.splits sum.splits)
  from Cons.IH [OF rest Cons.prems(2)] a show ?case
    by simp
qed

theorem C6_failure_ends_loop_witness:
  "rulesLoop rt0 (mem_services [''rule_1'']) demo_reading (Value (JStr ''d1''))
     ([] @ demo_rule ''rule_1'' None None # [demo_rule ''rule_2'' None None])
     (demo_world [] [] 30000)
   = (Inl (AwsError ''put rejected''),
      \<lparr>m_rules = [], m_alerts = [], m_events = [], m_clock = 30000, m_ids = 1\<rparr>)"
proof -
  have l: "rulesLoop rt0 (mem_services [''rule_1'']) demo_reading (Value (JStr ''d1'')) []
             (demo_world [] [] 30000) = (Inr [], demo_world [] [] 30000)"
    by simp
  have f: "processRule rt0 (mem_services [''rule_1'']) demo_reading (Value (JStr ''d1''))
             (demo_rule ''rule_1'' None None) (demo_world [] [] 30000)
           = (Inl (AwsError ''put rejected''),
              \<lparr>m_rules = [], m_alerts = [], m_events = [], m_clock = 30000, m_ids = 1\<rparr>)"
    by (simp add: processRule_def getLastAlertForRule_def
      fireAlert_def createAlertInstance_def storeAlertInstance_def
      evaluateAlertConditions_def evalCondition_def get_prop_def num_gt_def
      mem_services_def mem_query_def demo_world_def demo_rule_def demo_reading_def)
  show ?thesis
    using C6_failure_ends_loop [OF l f, of "[demo_rule ''rule_2'' None None]"] by simp
qed


section \<open>Properties of the replay scheduler and of the session registry\<close>

lemma replayLoop_stops:
  "connections st cid = None \<or> (\<exists>c. connections st cid = Some c \<and> ci_replayConfig c = None)
   \<Longrightarrow> replayLoop env cid events sched st = ([], st)"
  by (cases events) auto

lemma replayLoop_subseq: "subseq (fst (replayLoop env cid events sched st)) events"
proof (induction events arbitrary: sched st)
  case Nil
  then show ?case by simp
next
  case (Cons e es)
  then show ?case
    by (auto simp add: Let_def split: option.splits)
qed

lemma replayLoop_length: "length (fst (replayLoop env cid events sched st)) \<le> length events"
  using replayLoop_subseq [of env cid events sched st] by (rule list_emb_length)

lemma replayLoop_undisturbed:
  assumes "\<And>m. postToConnection env cid m"
    and "connections st cid = Some c" and "ci_replayConfig c = Some cfg"
  shows "replayLoop env cid events [] st = (events, st)"
  using assms
  by (induction events) (auto simp add: Let_def sendToConnection_def run_inputs_def)



lemma startReplay_fetched:
  assumes "queryEventsFromDynamoDB env (replay_filters_of config) = Inr fetched"
  shows "startReplay env cid (Some config) fetching sched st =
         (Inr (fst (replayLoop env cid (sort_key e_timestamp fetched) sched (run_inputs env fetching st))),
          snd (replayLoop env cid (sort_key e_timestamp fetched) sched (run_inputs env fetching st)))"
  using assms by (simp add: startReplay_def Let_def)



lemma stop_clears:
  "connections (apply_input env st (Message cid StopReplay rid)) cid = None
   \<or> (\<exists>c. connections (apply_input env st (Message cid StopReplay rid)) cid = Some c
          \<and> ci_replayConfig c = None)"
  by (auto simp add: handleMessage_def handleStopReplay_def sendToConnection_def Let_def
      not_found_def split: option.splits)

lemma disconnect_clears:
  "connections (apply_input env st (Disconnect cid)) cid = None"
  by (simp add: handleDisconnect_def)

lemma run_inputs_snoc:
  "run_inputs env (inputs @ [x]) st = apply_input env (run_inputs env inputs st) x"
  by (simp add: run_inputs_def)

lemma replayLoop_cut:
  assumes "\<And>s. connections (apply_input env s x) cid = None
            \<or> (\<exists>c. connections (apply_input env s x) cid = Some c \<and> ci_replayConfig c = None)"
  shows "fst (replayLoop env cid (e # es) ((a, b @ [x]) # rest) st)
         = fst (replayLoop env cid [e] [(a, b @ [x])] st)"
proof (cases "connections st cid")
  case None
  then show ?thesis by simp
next
  case (Some c)
  show ?thesis
  proof (cases "ci_replayConfig c")
    case None
    with Some show ?thesis by simp
  next
    case (Some cfg)
    let ?msg = "\<lparr>rs_action = ''replay_event'', rs_data = Some (REvent e),
                 rs_error = None, rs_requestId = None, rs_timestamp = ws_clock st\<rparr>"
    let ?s1 = "run_inputs env (b @ [x]) (snd (sendToConnection env cid ?msg (run_inputs env a st)))"
    have "connections ?s1 cid = None
          \<or> (\<exists>c. connections ?s1 cid = Some c \<and> ci_replayConfig c = None)"
      unfolding run_inputs_snoc by (rule assms)
    then have "replayLoop env cid es rest ?s1 = ([], ?s1)"
      by (rule replayLoop_stops)
    with \<open>connections st cid = Some c\<close> Some show ?thesis
      by (simp add: Let_def)
  qed
qed

lemma pass_inputs_tl: "pass_inputs (tl sched) k = pass_inputs sched (Suc k)"
  by (cases sched) (simp_all add: pass_inputs_def)

lemma pass_inputs_0: "pass_inputs sched 0 = (case sched of [] \<Rightarrow> ([], []) | s # rest \<Rightarrow> s)"
  by (cases sched) (simp_all add: pass_inputs_def)

lemma replayLoop_complete:
  assumes "fst (replayLoop env cid events sched st) = events" and "events \<noteq> []"
  shows "\<exists>s c cfg. connections s cid = Some c \<and> ci_replayConfig c = Some cfg
           \<and> snd (replayLoop env cid events sched st)
             = run_inputs env (snd (pass_inputs sched (length events - 1)))
                 (run_inputs env (fst (pass_inputs sched (length events - 1))) s)"
  using assms
proof (induction events arbitrary: sched st)
  case Nil
  then show ?case by simp
next
  case (Cons e es)
  let ?msg = "\<lparr>rs_action = ''replay_event'', rs_data = Some (REvent e),
               rs_error = None, rs_requestId = None, rs_timestamp = ws_clock st\<rparr>"
  let ?d = "pass_inputs sched 0"
  let ?sent = "sendToConnection env cid ?msg (run_inputs env (fst ?d) st)"
  let ?st1 = "run_inputs env (snd ?d) (snd ?sent)"
  let ?more = "replayLoop env cid es (tl sched) ?st1"
  from Cons.prems(1) obtain c cfg where
    c: "connections st cid = Some c" "ci_replayConfig c = Some cfg"
    by (auto split: option.splits)
  then have loop: "replayLoop env cid (e # es) sched st
                   = ((if fst ?sent then e # fst ?more else fst ?more), snd ?more)"
    by (simp add: Let_def pass_inputs_0)
  have len: "length (fst ?more) \<le> length es"
    by (rule replayLoop_length)
  from Cons.prems(1) loop len have ok: "fst ?sent" and rest: "fst ?more = es"
    by (auto split: if_splits)
  from ok have sent: "snd ?sent = run_inputs env (fst ?d) st"
    by (simp add: sendToConnection_def split: if_splits)
  show ?case
  proof (cases "es = []")
    case True
    with loop sent have "snd (replayLoop env cid (e # es) sched st)
                 = run_inputs env (snd ?d) (run_inputs env (fst ?d) st)"
      by simp
    with True c show ?thesis by auto
  next
    case False
    from Cons.IH [OF rest False] obtain s c' cfg' where
      s: "connections s cid = Some c'" "ci_replayConfig c' = Some cfg'"
         "snd ?more = run_inputs env (snd (pass_inputs (tl sched) (length es - 1)))
                        (run_inputs env (fst (pass_inputs (tl sched) (length es - 1))) s)"
      by blast
    from False have "Suc (length es - 1) = length (e # es) - 1"
      by (cases es) simp_all
    with s(3) loop have "snd (replayLoop env cid (e # es) sched st)
        = run_inputs env (snd (pass_inputs sched (length (e # es) - 1)))
            (run_inputs env (fst (pass_inputs sched (length (e # es) - 1))) s)"
      by (simp add: pass_inputs_tl)
    with s(1) s(2) show ?thesis by blast
  qed
qed

lemma replayLoop_quiet:
  "fst (replayLoop env cid events [] st) = events \<Longrightarrow> snd (replayLoop env cid events [] st) = st"
proof (induction events arbitrary: st)
  case Nil
  then show ?case by simp
next
  case (Cons e es)
  let ?msg = "\<lparr>rs_action = ''replay_event'', rs_data = Some (REvent e),
               rs_error = None, rs_requestId = None, rs_timestamp = ws_clock st\<rparr>"
  let ?sent = "sendToConnection env cid ?msg st"
  let ?more = "replayLoop env cid es [] (snd ?sent)"
  from Cons.prems obtain c cfg where
    c: "connections st cid = Some c" "ci_replayConfig c = Some cfg"
    by (auto split: option.splits)
  then have loop: "replayLoop env cid (e # es) [] st
                   = ((if fst ?sent then e # fst ?more else fst ?more), snd ?more)"
    by (simp add: Let_def run_inputs_def)
  have len: "length (fst ?more) \<le> length es"
    by (rule replayLoop_length)
  from Cons.prems loop len have ok: "fst ?sent" and rest: "fst ?more = es"
    by (auto split: if_splits)
  from ok have sent: "snd ?sent = st"
    by (simp add: sendToConnection_def split: if_splits)
  from Cons.IH [of "snd ?sent"] rest sent loop show ?case
    by simp
qed

lemma mem_env_honest:
  "sendQuery (mem_env table) p = Inr evs \<Longrightarrow> ev \<in> set evs \<Longrightarrow> query_selects p ev"
  "sendScan (mem_env table) q = Inr evs \<Longrightarrow> ev \<in> set evs \<Longrightarrow> scan_selects q ev"
proof -
  assume "sendQuery (mem_env table) p = Inr evs" and "ev \<in> set evs"
  then obtain u where "(ev, u) \<in> set (take (nat (q_Limit p))
         (rev (sort_key (\<lambda>it. e_timestamp (fst it))
           (filter (\<lambda>it. query_selects p (fst it)) table))))"
    by (auto simp add: mem_env_def mem_sendQuery_def)
  then have "(ev, u) \<in> set (rev (sort_key (\<lambda>it. e_timestamp (fst it))
           (filter (\<lambda>it. query_selects p (fst it)) table)))"
    by (rule in_set_takeD)
  then show "query_selects p ev"
    by simp
next
  assume "sendScan (mem_env table) q = Inr evs" and "ev \<in> set evs"
  then show "scan_selects q ev"
    by (auto simp add: mem_env_def mem_sendScan_def)
qed

lemma demo_event_sel:
  "e_timestamp (demo_event i t g) = t"
  "e_source (demo_event i t g) = ''iot_sensors''"
  "e_type (demo_event i t g) = ''sensor_reading''"
  "e_metadata (demo_event i t g) = Some \<lparr>md_version = ''1.0.0'', md_tags = g\<rparr>"
  by (simp_all add: demo_event_def)

lemma demo_config_sel:
  "rc_startTime (demo_config f) = 1000"
  "rc_endTime (demo_config f) = 5000"
  "rc_filters (demo_config f) = f"
  by (simp_all add: demo_config_def)

lemma demo_state_sel:
  "connections (demo_state c) ''c1'' = Some c"
  "ci_replayConfig (demo_session subs devs cfg) = cfg"
  "ci_subscriptions (demo_session subs devs cfg) = subs"
  "ci_deviceSubscriptions (demo_session subs devs cfg) = devs"
  by (simp_all add: demo_state_def demo_session_def)

lemma mem_env_sel:
  "sendQuery (mem_env table) p = Inr (mem_sendQuery table p)"
  "sendScan (mem_env table) q = Inr (mem_sendScan table q)"
  "postToConnection (mem_env table) c m = True"
  by (simp_all add: mem_env_def)

lemma replay_quiet_run:
  assumes "queryEventsFromDynamoDB (mem_env table) (replay_filters_of config) = Inr fetched"
    and "ci_replayConfig c = Some cfg"
  shows "startReplay (mem_env table) ''c1'' (Some config) [] [] (demo_state c)
         = (Inr (sort_key e_timestamp fetched), demo_state c)"
proof -
  have "replayLoop (mem_env table) ''c1'' (sort_key e_timestamp fetched) [] (demo_state c)
        = (sort_key e_timestamp fetched, demo_state c)"
    using assms(2) by (intro replayLoop_undisturbed) (simp_all add: mem_env_sel demo_state_sel)
  then show ?thesis
    using startReplay_fetched [OF assms(1), of "''c1''" "[]" "[]" "demo_state c"]
    by (simp add: run_inputs_def)
qed




text \<open>
  C8, as the claim states it, fails: during the pause after the first delivery the session
  sends \<^verbatim>\<open>stop_replay\<close>, which clears its replay configuration, and then \<^verbatim>\<open>start_replay\<close>, which
  sets one again. At its next check the running replay finds a configuration and delivers its
  second event.
\<close>

theorem C8_cancellation_counterexample:
  "fst (replayLoop (mem_env []) ''c1''
         [demo_event ''e1200'' 1200 None, demo_event ''e3400'' 3400 None]
         [([], [Message ''c1'' StopReplay None,
                Message ''c1'' (StartReplay (Some (demo_config None))) None])]
         (demo_state (demo_session [] [] (Some (demo_config None)))))
   = [demo_event ''e1200'' 1200 None, demo_event ''e3400'' 3400 None]
   \<and> map_option ci_replayConfig
       (connections (run_inputs (mem_env []) [Message ''c1'' StopReplay None]
          (demo_state (demo_session [] [] (Some (demo_config None))))) ''c1'')
     = Some None"
  by (simp add: run_inputs_def handleMessage_def handleStopReplay_def handleStartReplay_def
      sendToConnection_def mem_env_def demo_state_def demo_session_def Let_def)

text \<open>
  C8, amended. Before each delivery the loop checks that the session is in the map and has a
  replay configuration; when the session is absent or its configuration is unset at that
  check, the loop ends there, without error, having delivered nothing more and changed
  nothing. So when a \<^verbatim>\<open>stop_replay\<close> of the session or its disconnection is the last thing handled
  before the next check, no event after the one just sent is delivered. A clear that is
  followed by a new \<^verbatim>\<open>start_replay\<close> before that check does not stop the running replay.
\<close>

theorem C8_cancellation_polled:
  "(connections st cid = None \<or> (\<exists>c. connections st cid = Some c \<and> ci_replayConfig c = None)
      \<longrightarrow> replayLoop env cid events sched st = ([], st))
   \<and> fst (replayLoop env cid (e # es) ((a, b @ [Message cid StopReplay rid]) # rest) st)
       = fst (replayLoop env cid [e] [(a, b @ [Message cid StopReplay rid])] st)
   \<and> fst (replayLoop env cid (e # es) ((a, b @ [Disconnect cid]) # rest) st)
       = fst (replayLoop env cid [e] [(a, b @ [Disconnect cid])] st)
   \<and> subseq (fst (replayLoop env cid [e] [(a, b @ [x])] st)) [e]"
proof -
  have 1: "connections st cid = None \<or> (\<exists>c. connections st cid = Some c \<and> ci_replayConfig c = None)
      \<longrightarrow> replayLoop env cid events sched st = ([], st)"
    using replayLoop_stops [of st cid env events sched] by blast
  have 2: "fst (replayLoop env cid (e # es) ((a, b @ [Message cid StopReplay rid]) # rest) st)
       = fst (replayLoop env cid [e] [(a, b @ [Message cid StopReplay rid])] st)"
    by (rule replayLoop_cut) (rule stop_clears)
  have 3: "fst (replayLoop env cid (e # es) ((a, b @ [Disconnect cid]) # rest) st)
       = fst (replayLoop env cid [e] [(a, b @ [Disconnect cid])] st)"
    by (rule replayLoop_cut) (rule disjI1, rule disconnect_clears)
  have 4: "subseq (fst (replayLoop env cid [e] [(a, b @ [x])] st)) [e]"
    by (rule replayLoop_subseq)
  from 1 2 3 4 show ?thesis by blast
qed

theorem C8_cancellation_polled_witness:
  "replayLoop (mem_env []) ''c1''
     [demo_event ''e1200'' 1200 None, demo_event ''e3400'' 3400 None] []
     (demo_state (demo_session [] [] None))
   = ([], demo_state (demo_session [] [] None))
   \<and> fst (replayLoop (mem_env []) ''c1''
         [demo_event ''e1200'' 1200 None, demo_event ''e3400'' 3400 None]
         [([], [] @ [Message ''c1'' StopReplay None])]
         (demo_state (demo_session [] [] (Some (demo_config None)))))
     = [demo_event ''e1200'' 1200 None]"
proof -
  have c: "connections (demo_state (demo_session [] [] None)) ''c1'' = None
           \<or> (\<exists>c. connections (demo_state (demo_session [] [] None)) ''c1'' = Some c
                  \<and> ci_replayConfig c = None)"
    by (simp add: demo_state_def demo_session_def)
  have one: "fst (replayLoop (mem_env []) ''c1'' [demo_event ''e1200'' 1200 None]
               [([], [] @ [Message ''c1'' StopReplay None])]
               (demo_state (demo_session [] [] (Some (demo_config None)))))
             = [demo_event ''e1200'' 1200 None]"
    by (simp add: run_inputs_def handleMessage_def handleStopReplay_def
        sendToConnection_def mem_env_def demo_state_def demo_session_def Let_def)
  show ?thesis
    using C8_cancellation_polled [of "demo_state (demo_session [] [] None)" "''c1''" "mem_env []"
        "[demo_event ''e1200'' 1200 None, demo_event ''e3400'' 3400 None]" "[]"]
      C8_cancellation_polled [of "demo_state (demo_session [] [] (Some (demo_config None)))"
        "''c1''" "mem_env []" "[]" "[]" "demo_event ''e1200'' 1200 None"
        "[demo_event ''e3400'' 3400 None]" "[]" "[]" None "[]"] c one
    by simp
qed

text \<open>
  C9, as the claim states it, fails: a replay of one event with nothing else handled meanwhile
  delivers the event and ends, and the session still has the replay configuration that
  \<^verbatim>\<open>start_replay\<close> stored.
\<close>

theorem C9_completion_counterexample:
  "startReplay (mem_env [(demo_event ''e1200'' 1200 None, TEST_USER_ID)])
     ''c1'' (Some (demo_config None)) [] []
     (snd (handleStartReplay ''c1'' (Some (demo_config None)) (demo_response ''start_replay'')
             (demo_state (demo_session [] [] None))))
   = (Inr [demo_event ''e1200'' 1200 None],
      demo_state (demo_session [] [] (Some (demo_config None))))
   \<and> map_option ci_replayConfig
       (connections (demo_state (demo_session [] [] (Some (demo_config None)))) ''c1'')
     = Some (Some (demo_config None))"
proof -
  have h: "snd (handleStartReplay ''c1'' (Some (demo_config None)) (demo_response ''start_replay'')
             (demo_state (demo_session [] [] None)))
           = demo_state (demo_session [] [] (Some (demo_config None)))"
    by (simp add: handleStartReplay_def demo_state_def demo_session_def)
  have q: "queryEventsFromDynamoDB (mem_env [(demo_event ''e1200'' 1200 None, TEST_USER_ID)])
             (replay_filters_of (demo_config None))
           = Inr [demo_event ''e1200'' 1200 None]"
    by (simp add: queryEventsFromDynamoDB_def replay_filters_of_def demo_config_sel
        mem_env_sel mem_sendScan_def scan_selects_def demo_event_sel)
  show ?thesis
    using replay_quiet_run [OF q, of "demo_session [] [] (Some (demo_config None))"]
    by (simp add: h demo_state_sel)
qed

text \<open>
  C9, amended. A replay that delivers its full event list does not clear the replay
  configuration of the session on completion. If the list is not empty, the session had a
  replay configuration at the check before the last delivery, and from that check on the
  replay writes nothing to the map of connections: the state at the end is the state at that
  check, changed only by what the process handled during the last delivery and the last
  pause. If the list is empty, the state at the end is the state at the start, changed only
  by what the process handled during the fetch. In both cases, when nothing else is handled
  during the replay, the state at the end is the state at the start, with the configuration
  that \<^verbatim>\<open>start_replay\<close> stored.
\<close>

theorem C9_completion_keeps_config:
  assumes "queryEventsFromDynamoDB env (replay_filters_of config) = Inr fetched"
    and "fst (startReplay env cid (Some config) fetching sched st)
         = Inr (sort_key e_timestamp fetched)"
  shows "(fetched \<noteq> [] \<longrightarrow>
            (\<exists>s c cfg. connections s cid = Some c \<and> ci_replayConfig c = Some cfg
               \<and> snd (startReplay env cid (Some config) fetching sched st)
                 = run_inputs env (snd (pass_inputs sched (length fetched - 1)))
                     (run_inputs env (fst (pass_inputs sched (length fetched - 1))) s)))
       \<and> (fetched = [] \<longrightarrow>
            snd (startReplay env cid (Some config) fetching sched st) = run_inputs env fetching st)
       \<and> (fetching = [] \<and> sched = [] \<longrightarrow>
            snd (startReplay env cid (Some config) fetching sched st) = st)
       \<and> (fetching = [] \<and> sched = [] \<and> fetched \<noteq> [] \<longrightarrow>
            (\<exists>c cfg. connections (snd (startReplay env cid (Some config) fetching sched st)) cid
                       = Some c \<and> ci_replayConfig c = Some cfg))"
proof -
  let ?sorted = "sort_key e_timestamp fetched"
  let ?st0 = "run_inputs env fetching st"
  let ?loop = "replayLoop env cid ?sorted sched ?st0"
  note sr = startReplay_fetched [OF assms(1), of cid fetching sched st]
  from sr assms(2) have full: "fst ?loop = ?sorted"
    by simp
  from sr have final: "snd (startReplay env cid (Some config) fetching sched st) = snd ?loop"
    by simp
  have 1: "\<exists>s c cfg. connections s cid = Some c \<and> ci_replayConfig c = Some cfg
               \<and> snd (startReplay env cid (Some config) fetching sched st)
                 = run_inputs env (snd (pass_inputs sched (length fetched - 1)))
                     (run_inputs env (fst (pass_inputs sched (length fetched - 1))) s)"
    if "fetched \<noteq> []"
  proof -
    from that have ne: "?sorted \<noteq> []"
      by (metis length_0_conv length_sort)
    from replayLoop_complete [OF full ne] final show ?thesis
      by simp
  qed
  have 2: "snd (startReplay env cid (Some config) fetching sched st) = ?st0" if "fetched = []"
    using that final by simp
  have 3: "snd (startReplay env cid (Some config) fetching sched st) = st"
    if "fetching = []" and "sched = []"
  proof -
    from that have s0: "?st0 = st"
      by (simp add: run_inputs_def)
    from full that s0 have "fst (replayLoop env cid ?sorted [] st) = ?sorted"
      by simp
    then have "snd (replayLoop env cid ?sorted [] st) = st"
      by (rule replayLoop_quiet)
    with final that s0 show ?thesis
      by simp
  qed
  have 4: "\<exists>c cfg. connections (snd (startReplay env cid (Some config) fetching sched st)) cid
                       = Some c \<and> ci_replayConfig c = Some cfg"
    if "fetching = []" and "sched = []" and "fetched \<noteq> []"
  proof -
    from 1 [OF that(3)] obtain s c cfg where
      s: "connections s cid = Some c" "ci_replayConfig c = Some cfg"
         "snd (startReplay env cid (Some config) fetching sched st)
            = run_inputs env (snd (pass_inputs sched (length fetched - 1)))
                (run_inputs env (fst (pass_inputs sched (length fetched - 1))) s)"
      by blast
    from that(2) s(3) have "snd (startReplay env cid (Some config) fetching sched st) = s"
      by (simp add: pass_inputs_def run_inputs_def)
    with s(1) s(2) show ?thesis
      by simp
  qed
  from 1 2 3 4 show ?thesis by blast
qed

theorem C9_completion_keeps_config_witness:
  "map_option ci_replayConfig
     (connections (snd (startReplay
         (mem_env [(demo_event ''e3400'' 3400 None, TEST_USER_ID),
                   (demo_event ''e1200'' 1200 None, TEST_USER_ID)])
         ''c1'' (Some (demo_config None)) [] []
         (demo_state (demo_session [] [] (Some (demo_config None)))))) ''c1'')
   = Some (Some (demo_config None))
   \<and> snd (startReplay
         (mem_env [(demo_event ''e3400'' 3400 None, TEST_USER_ID),
                   (demo_event ''e1200'' 1200 None, TEST_USER_ID)])
         ''c1'' (Some (demo_config None)) [] []
         (demo_state (demo_session [] [] (Some (demo_config None)))))
   = demo_state (demo_session [] [] (Some (demo_config None)))"
proof -
  let ?env = "mem_env [(demo_event ''e3400'' 3400 None, TEST_USER_ID),
                   (demo_event ''e1200'' 1200 None, TEST_USER_ID)]"
  let ?st = "demo_state (demo_session [] [] (Some (demo_config None)))"
  have q: "queryEventsFromDynamoDB ?env (replay_filters_of (demo_config None))
           = Inr [demo_event ''e3400'' 3400 None, demo_event ''e1200'' 1200 None]"
    by (simp add: queryEventsFromDynamoDB_def replay_filters_of_def demo_config_sel
        mem_env_sel mem_sendScan_def scan_selects_def demo_event_sel)
  have run: "fst (startReplay ?env ''c1'' (Some (demo_config None)) [] [] ?st)
             = Inr (sort_key e_timestamp
                 [demo_event ''e3400'' 3400 None, demo_event ''e1200'' 1200 None])"
    using replay_quiet_run [OF q, of "demo_session [] [] (Some (demo_config None))"]
    by (simp add: demo_state_sel)
  show ?thesis
    using C9_completion_keeps_config [OF q run]
    by (simp add: demo_state_sel)
qed

lemma unsubscribe_effect:
  assumes "connections st cid = Some c"
  shows "map_option ci_subscriptions (connections (snd (handleUnsubscribe cid d r st)) cid)
           = Some (filter (\<lambda>sub. sub \<notin> set (or_empty (data_sources d) @ or_empty (data_types d)))
                     (ci_subscriptions c))
       \<and> (data_deviceIds dd = None \<longrightarrow>
            map_option ci_deviceSubscriptions
              (connections (snd (handleUnsubscribeDevices cid dd r' st)) cid) = Some [])
       \<and> (\<forall>ids. data_deviceIds dd = Some ids \<longrightarrow>
            map_option ci_deviceSubscriptions
              (connections (snd (handleUnsubscribeDevices cid dd r' st)) cid)
              = Some (filter (\<lambda>i. i \<notin> set ids) (ci_deviceSubscriptions c)))"
  using assms
  by (auto simp add: handleUnsubscribe_def handleUnsubscribeDevices_def Let_def)

text \<open>
  C10. An \<^verbatim>\<open>unsubscribe\<close> message with an empty or absent filter must clear the topic
  subscriptions of the session, as \<^verbatim>\<open>unsubscribe_devices\<close> without device ids clears its device
  subscriptions. A session subscribed to the topics \<^verbatim>\<open>iot_sensors\<close> and \<^verbatim>\<open>sensor_reading\<close> and to
  the devices \<^verbatim>\<open>d1\<close> and \<^verbatim>\<open>d2\<close> sends \<^verbatim>\<open>unsubscribe\<close> without data, then with data that names no
  sources and no types, then with empty lists: each time its topic subscriptions are what they
  were. It sends \<^verbatim>\<open>unsubscribe_devices\<close> without data: its device subscriptions are cleared.
\<close>

theorem C10_unsubscribe_keeps_topics:
  "map_option ci_subscriptions
     (connections (snd (handleMessage (mem_env []) ''c1'' (Unsubscribe None) None
        (demo_state (demo_session [''iot_sensors'', ''sensor_reading''] [''d1'', ''d2''] None)))) ''c1'')
   = Some [''iot_sensors'', ''sensor_reading'']
   \<and> map_option ci_subscriptions
     (connections (snd (handleMessage (mem_env []) ''c1''
        (Unsubscribe (Some \<lparr>td_sources = None, td_types = None\<rparr>)) None
        (demo_state (demo_session [''iot_sensors'', ''sensor_reading''] [''d1'', ''d2''] None)))) ''c1'')
   = Some [''iot_sensors'', ''sensor_reading'']
   \<and> map_option ci_subscriptions
     (connections (snd (handleMessage (mem_env []) ''c1''
        (Unsubscribe (Some \<lparr>td_sources = Some [], td_types = Some []\<rparr>)) None
        (demo_state (demo_session [''iot_sensors'', ''sensor_reading''] [''d1'', ''d2''] None)))) ''c1'')
   = Some [''iot_sensors'', ''sensor_reading'']
   \<and> map_option ci_deviceSubscriptions
     (connections (snd (handleMessage (mem_env []) ''c1'' (UnsubscribeDevices None) None
        (demo_state (demo_session [''iot_sensors'', ''sensor_reading''] [''d1'', ''d2''] None)))) ''c1'')
   = Some []"
  by (simp add: handleMessage_def handleUnsubscribe_def handleUnsubscribeDevices_def
      sendToConnection_def mem_env_def demo_state_def demo_session_def Let_def)


end
